theory Spec2Isabelle
  imports Complex_Main "HOL-Library.Sublist" "HOL-Library.AList"
begin

section \<open>Text helpers shared by the extractor and the API layer\<close>

text \<open>
  Python strings are modelled as \<^typ>\<open>string\<close>; each \<^typ>\<open>char\<close> stands for one code
  point below 256. On that range the regular-expression class \<open>\d\<close> is exactly the ten
  ASCII digits.
\<close>

definition is_digit :: "char \<Rightarrow> bool" where
  "is_digit c = (c \<in> set ''0123456789'')"

text \<open>The value of a digit is its position among the ten digits.\<close>

definition digit_val :: "char \<Rightarrow> nat" where
  "digit_val c = length (takeWhile (\<lambda>d. d \<noteq> c) ''0123456789'')"

definition digits_value :: "string \<Rightarrow> 'a::semiring_1" where
  "digits_value ds = foldl (\<lambda>a c. 10 * a + of_nat (digit_val c)) 0 ds"

definition is_sign :: "char \<Rightarrow> bool" where
  "is_sign c = (c = CHR ''-'' \<or> c = CHR ''+'')"

section \<open>Numeric normalizer: \<open>_clean_numeric_value\<close>\<close>

text \<open>
  \<open>re.sub(r'[^\d.-]', '', value_str)\<close>: every character that is not a digit, a dot or a
  minus sign is deleted.
\<close>

definition keep_char :: "char \<Rightarrow> bool" where
  "keep_char c = (is_digit c \<or> c = CHR ''.'' \<or> c = CHR ''-'')"

definition strip_non_numeric :: "string \<Rightarrow> string" where
  "strip_non_numeric s = filter keep_char s"

text \<open>
  \<open>re.search(r'([-+]?\d+\.?\d*)', value_str)\<close>. \<open>match_number_here\<close> is the anchored
  match at the head of the string: an optional sign, then (\<open>match_unsigned\<close>) a greedy run of at
  least one digit, an optional dot, a greedy run of digits. No quantifier ever has to give characters back, because
  whatever follows \<open>\d+\<close> in the pattern may match the empty string. \<open>search_number\<close> tries
  the start positions from left to right.
\<close>

definition match_unsigned :: "string \<Rightarrow> string option" where
  "match_unsigned r =
     (let ds = takeWhile is_digit r; r2 = dropWhile is_digit r
      in if ds = [] then None
         else (case r2 of [] \<Rightarrow> Some ds
               | c # r3 \<Rightarrow> if c = CHR ''.'' then Some (ds @ c # takeWhile is_digit r3)
                          else Some ds))"

definition match_number_here :: "string \<Rightarrow> string option" where
  "match_number_here s =
     (case s of [] \<Rightarrow> None
      | c # cs \<Rightarrow> if is_sign c then map_option ((#) c) (match_unsigned cs)
                 else match_unsigned s)"

fun search_number :: "string \<Rightarrow> string option" where
  "search_number [] = None"
| "search_number (c # cs) =
     (case match_number_here (c # cs) of Some m \<Rightarrow> Some m | None \<Rightarrow> search_number cs)"

text \<open>
  \<open>float(text)\<close> on a text over the alphabet of digits, dot and sign. Python accepts an
  optional sign followed by digits with an optional fraction, or by a dot and at least one
  digit; anything else raises ValueError, which is \<open>None\<close> here. The result is the exact
  decimal value as a rational: the rounding of a binary double is outside the model.
\<close>

definition decimal_value :: "string \<Rightarrow> string \<Rightarrow> rat" where
  "decimal_value ip fp = digits_value ip + digits_value fp / 10 ^ length fp"

definition unsigned_float :: "string \<Rightarrow> rat option" where
  "unsigned_float s =
     (let ip = takeWhile is_digit s; r = dropWhile is_digit s
      in case r of
           [] \<Rightarrow> if ip = [] then None else Some (decimal_value ip [])
         | c # fp \<Rightarrow>
             if c = CHR ''.'' \<and> list_all is_digit fp \<and> (ip \<noteq> [] \<or> fp \<noteq> [])
             then Some (decimal_value ip fp) else None)"

definition py_float :: "string \<Rightarrow> rat option" where
  "py_float s =
     (case s of [] \<Rightarrow> None
      | c # cs \<Rightarrow> if c = CHR ''-'' then map_option uminus (unsigned_float cs)
                 else if c = CHR ''+'' then unsigned_float cs
                 else unsigned_float s)"

text \<open>
  \<open>_clean_numeric_value\<close> for a text argument. The empty text and the text \<open>nan\<close> are
  rejected first; the value is negated when the text holds both an opening and a closing
  parenthesis; the ValueError of \<open>float\<close> is caught and becomes \<open>None\<close>.
\<close>

definition clean_numeric_value :: "string \<Rightarrow> rat option" where
  "clean_numeric_value value_str =
     (if value_str = [] \<or> value_str = ''nan'' then None
      else
        let negative = (CHR ''('' \<in> set value_str \<and> CHR '')'' \<in> set value_str);
            stripped = strip_non_numeric value_str
        in case search_number stripped of
             None \<Rightarrow> None
           | Some m \<Rightarrow>
               (case py_float m of
                  None \<Rightarrow> None
                | Some v \<Rightarrow> Some (if negative then - v else v)))"




section \<open>Python helpers\<close>

datatype py_error = IndexError | KeyError | ValueError | TypeError | BackendError

text \<open>
  \<open>str.lower\<close> on code points below 256: the capital letters of ASCII and of Latin-1,
  listed with their small letters in the same order.
\<close>

definition upper_chars :: string where
  "upper_chars = ''ABCDEFGHIJKLMNOPQRSTUVWXYZ'' @
       [CHR 0xC0, CHR 0xC1, CHR 0xC2, CHR 0xC3, CHR 0xC4, CHR 0xC5, CHR 0xC6, CHR 0xC7,
        CHR 0xC8, CHR 0xC9, CHR 0xCA, CHR 0xCB, CHR 0xCC, CHR 0xCD, CHR 0xCE, CHR 0xCF,
        CHR 0xD0, CHR 0xD1, CHR 0xD2, CHR 0xD3, CHR 0xD4, CHR 0xD5, CHR 0xD6, CHR 0xD8,
        CHR 0xD9, CHR 0xDA, CHR 0xDB, CHR 0xDC, CHR 0xDD, CHR 0xDE]"

definition lower_chars :: string where
  "lower_chars = ''abcdefghijklmnopqrstuvwxyz'' @
       [CHR 0xE0, CHR 0xE1, CHR 0xE2, CHR 0xE3, CHR 0xE4, CHR 0xE5, CHR 0xE6, CHR 0xE7,
        CHR 0xE8, CHR 0xE9, CHR 0xEA, CHR 0xEB, CHR 0xEC, CHR 0xED, CHR 0xEE, CHR 0xEF,
        CHR 0xF0, CHR 0xF1, CHR 0xF2, CHR 0xF3, CHR 0xF4, CHR 0xF5, CHR 0xF6, CHR 0xF8,
        CHR 0xF9, CHR 0xFA, CHR 0xFB, CHR 0xFC, CHR 0xFD, CHR 0xFE]"

definition lower_char :: "char \<Rightarrow> char" where
  "lower_char c = (case map_of (zip upper_chars lower_chars) c of None \<Rightarrow> c | Some l \<Rightarrow> l)"

definition lower :: "string \<Rightarrow> string" where
  "lower s = map lower_char s"

text \<open>\<open>needle in haystack\<close> for strings: the needle occurs as a contiguous substring.\<close>

fun py_in :: "string \<Rightarrow> string \<Rightarrow> bool" where
  "py_in needle [] = (needle = [])"
| "py_in needle (h # hs) = (prefix needle (h # hs) \<or> py_in needle hs)"

text \<open>\<open>str.split(sep)\<close> with a one-character separator; the result is never empty.\<close>

fun split_on :: "char \<Rightarrow> string \<Rightarrow> string list" where
  "split_on sep [] = [[]]"
| "split_on sep (c # cs) =
     (if c = sep then [] # split_on sep cs
      else (case split_on sep cs of [] \<Rightarrow> [[c]] | p # ps \<Rightarrow> (c # p) # ps))"

text \<open>
  \<open>int(text)\<close>: surrounding whitespace is dropped, then an optional sign and decimal digits,
  where single underscores may separate digits; anything else raises ValueError.
\<close>

definition is_space :: "char \<Rightarrow> bool" where
  "is_space c =
     (c \<in> set [CHR 0x09, CHR 0x0A, CHR 0x0B, CHR 0x0C, CHR 0x0D, CHR 0x1C, CHR 0x1D, CHR 0x1E,
               CHR 0x1F, CHR 0x20, CHR 0x85, CHR 0xA0])"

definition py_strip :: "string \<Rightarrow> string" where
  "py_strip s = rev (dropWhile is_space (rev (dropWhile is_space s)))"

fun digits_us :: "string \<Rightarrow> bool" where
  "digits_us [] = False"
| "digits_us [c] = is_digit c"
| "digits_us (c # d # r) =
     (is_digit c \<and> (if d = CHR ''_'' then digits_us r else digits_us (d # r)))"

definition py_int :: "string \<Rightarrow> py_error + int" where
  "py_int s =
     (let t = py_strip s;
          (neg, body) = (case t of [] \<Rightarrow> (False, [])
                         | c # cs \<Rightarrow> if c = CHR ''-'' then (True, cs)
                                    else if c = CHR ''+'' then (False, cs) else (False, t))
      in if digits_us body
         then (let n = digits_value (filter is_digit body) in Inr (if neg then - n else n))
         else Inl ValueError)"

text \<open>
  \<open>sorted(xs, key=k, reverse=True)\<close>: Python reverses the list, sorts it stably in ascending
  order and reverses the result, so elements with equal keys keep their order.
\<close>

definition sorted_desc :: "('a \<Rightarrow> rat) \<Rightarrow> 'a list \<Rightarrow> 'a list" where
  "sorted_desc k xs = rev (sort_key k (rev xs))"

section \<open>The API layer: consolidation of the persisted data (\<open>app.py\<close>)\<close>

text \<open>
  The input is the persisted consolidated form that \<open>export_data_to_json\<close> writes: per
  fiscal period seven metrics, each with a value that may be null, a rights-issue object whose issue price is a number or the text \<open>N/A\<close> (\<open>None\<close> here), and the
  shareholders with a percentage and an optional share count. The JSON object of fiscal
  periods is an association list in the order of the file. The formatted texts that accompany
  the values are renderings of floats; they are copied through by the code and are left out
  of the model, on both sides.
\<close>

record metric =
  m_value :: "rat option"

record right_issues_json =
  rj_ratio :: string
  rj_issue_price :: "rat option"

record shareholder_json =
  sj_percentage :: rat
  sj_shares :: "rat option"

record year_data =
  fd_total_revenue :: metric
  fd_cost_of_sales :: metric
  fd_operating_expenses :: metric
  fd_gross_profit :: metric
  fd_gross_profit_margin :: metric
  fd_earnings_per_share :: metric
  fd_net_asset_per_share :: metric
  fd_right_issues :: "right_issues_json option"
  fd_top_shareholders :: "(string \<times> shareholder_json) list option"

record consolidated_data =
  financial_data :: "(string \<times> year_data) list"

text \<open>The dataset handed to the API layer.\<close>

record event =
  e_title :: string
  e_description :: string
  e_impact :: string
  e_date :: string

record right_issue =
  ri_year :: int
  ri_ratio :: string
  ri_issuePrice :: "rat option"
  ri_description :: string

record shareholder =
  sh_name :: string
  sh_percentage :: rat
  sh_shares :: "rat option"

record financials =
  revenue :: "rat option"
  costOfSales :: "rat option"
  operatingExpenses :: "rat option"
  grossProfit :: "rat option"
  grossProfitMargin :: "rat option"
  eps :: "rat option"
  netAssetPerShare :: "rat option"
  outstandingShares :: rat
  netProfit :: "rat option"
  totalAssets :: "rat option"
  totalLiabilities :: "rat option"

record yearly_data =
  year :: int
  industryGroups :: "string list"
  y_financials :: financials
  events :: "event list"

record transformed =
  t_industryGroups :: "string list"
  yearlyData :: "yearly_data list"
  rightIssues :: "right_issue list"
  topShareholders :: "(int \<times> shareholder list) list"

definition industry_groups :: "string list" where
  "industry_groups = [''Transportation'', ''Leisure'', ''Consumer Foods & Retail'',
     ''Financial Services'', ''Property'', ''Information Technology'']"

definition get_events_for_year :: "int \<Rightarrow> event list" where
  "get_events_for_year y =
     (if y = 2019 then
        [\<lparr>e_title = ''Easter Sunday Attacks'', e_description = ''Impact on tourism and leisure sectors'',
          e_impact = ''negative'', e_date = ''2019-04-21''\<rparr>]
      else if y = 2020 then
        [\<lparr>e_title = ''COVID-19 Pandemic'', e_description = ''Global lockdowns affecting operations'',
          e_impact = ''negative'', e_date = ''2020-03-15''\<rparr>,
         \<lparr>e_title = ''Government Relief'', e_description = ''Tax relief measures announced'',
          e_impact = ''positive'', e_date = ''2020-06-10''\<rparr>]
      else if y = 2021 then
        [\<lparr>e_title = ''Vaccination Programs'', e_description = ''Improved business sentiment'',
          e_impact = ''positive'', e_date = ''2021-04-05''\<rparr>]
      else if y = 2022 then
        [\<lparr>e_title = ''Economic Crisis'', e_description = ''Sri Lanka economic crisis'',
          e_impact = ''negative'', e_date = ''2022-03-31''\<rparr>]
      else if y = 2023 then
        [\<lparr>e_title = ''Tourism Resurgence'', e_description = ''Strong recovery in tourism sector'',
          e_impact = ''positive'', e_date = ''2023-02-10''\<rparr>]
      else if y = 2024 then
        [\<lparr>e_title = ''Economic Recovery'', e_description = ''Continued economic recovery and growth'',
          e_impact = ''positive'', e_date = ''2024-01-15''\<rparr>,
         \<lparr>e_title = ''Digital Transformation'',
          e_description = ''Acceleration of digital initiatives across all sectors'',
          e_impact = ''positive'', e_date = ''2024-03-20''\<rparr>]
      else [])"

text \<open>
  \<open>estimate_share_count\<close>: the first shareholder whose percentage and share count are both
  truthy (present and not zero) scales to the whole; otherwise the default.
\<close>

definition default_shares :: rat where
  "default_shares = 1385000000"

fun first_share_estimate :: "(string \<times> shareholder_json) list \<Rightarrow> rat option" where
  "first_share_estimate [] = None"
| "first_share_estimate ((n, d) # rest) =
     (case sj_shares d of
        Some s \<Rightarrow> if sj_percentage d \<noteq> 0 \<and> s \<noteq> 0 then Some (s / sj_percentage d * 100)
                  else first_share_estimate rest
      | None \<Rightarrow> first_share_estimate rest)"

definition estimate_share_count :: "year_data \<Rightarrow> rat" where
  "estimate_share_count yd =
     (case fd_top_shareholders yd of
        None \<Rightarrow> default_shares
      | Some shs \<Rightarrow> (case first_share_estimate shs of Some v \<Rightarrow> v | None \<Rightarrow> default_shares))"

text \<open>
  The body of the loop over \<open>[start_year, end_year]\<close>, in three parts. The rights issue is
  appended unless one with the same year and ratio is there already.
\<close>

definition add_right_issue :: "year_data \<Rightarrow> int \<Rightarrow> right_issue list \<Rightarrow> right_issue list" where
  "add_right_issue yd display_year ris =
     (case fd_right_issues yd of
        None \<Rightarrow> ris
      | Some r \<Rightarrow>
          if rj_ratio r \<noteq> ''N/A'' then
            (let right_issue_data = \<lparr>ri_year = display_year, ri_ratio = rj_ratio r,
                   ri_issuePrice = rj_issue_price r, ri_description = ''Rights issue''\<rparr>
             in if list_ex (\<lambda>item. ri_year item = display_year \<and> ri_ratio item = rj_ratio r) ris
                then ris else ris @ [right_issue_data])
          else ris)"

definition shareholders_list :: "(string \<times> shareholder_json) list \<Rightarrow> shareholder list" where
  "shareholders_list shs =
     sorted_desc sh_percentage
       (map (\<lambda>(n, d). \<lparr>sh_name = n, sh_percentage = sj_percentage d, sh_shares = sj_shares d\<rparr>) shs)"

definition add_top_shareholders ::
  "year_data \<Rightarrow> int \<Rightarrow> (int \<times> shareholder list) list \<Rightarrow> (int \<times> shareholder list) list" where
  "add_top_shareholders yd display_year ts =
     (case fd_top_shareholders yd of
        None \<Rightarrow> ts
      | Some shs \<Rightarrow> AList.update display_year (shareholders_list shs) ts)"

text \<open>
  The financial figures of one entry. \<open>financials['eps'] * financials['outstandingShares']\<close>
  raises TypeError when the persisted EPS value is null. The keys \<open>totalAssets\<close> and
  \<open>totalLiabilities\<close> are not set on this path.
\<close>

definition make_financials :: "year_data \<Rightarrow> py_error + financials" where
  "make_financials yd =
     (case m_value (fd_earnings_per_share yd) of
        None \<Rightarrow> Inl TypeError
      | Some e \<Rightarrow>
          Inr \<lparr>revenue = m_value (fd_total_revenue yd),
               costOfSales = m_value (fd_cost_of_sales yd),
               operatingExpenses = m_value (fd_operating_expenses yd),
               grossProfit = m_value (fd_gross_profit yd),
               grossProfitMargin = m_value (fd_gross_profit_margin yd),
               eps = Some e,
               netAssetPerShare = m_value (fd_net_asset_per_share yd),
               outstandingShares = estimate_share_count yd,
               netProfit = Some (e * estimate_share_count yd),
               totalAssets = None,
               totalLiabilities = None\<rparr>)"

definition make_yearly :: "financials \<Rightarrow> int \<Rightarrow> yearly_data" where
  "make_yearly f display_year =
     \<lparr>year = display_year, industryGroups = industry_groups, y_financials = f,
      events = get_events_for_year display_year\<rparr>"

text \<open>
  The guard of the consolidation: the entry is appended only when no entry of that year is in
  the list yet.
\<close>

definition add_yearly :: "yearly_data \<Rightarrow> yearly_data list \<Rightarrow> yearly_data list" where
  "add_yearly yearly ys =
     (if list_ex (\<lambda>item. year item = year yearly) ys then ys else ys @ [yearly])"

definition process_display_year :: "year_data \<Rightarrow> int \<Rightarrow> transformed \<Rightarrow> py_error + transformed" where
  "process_display_year yd display_year t =
     (case make_financials yd of
        Inl e \<Rightarrow> Inl e
      | Inr f \<Rightarrow>
          Inr (t\<lparr>rightIssues := add_right_issue yd display_year (rightIssues t),
                 topShareholders := add_top_shareholders yd display_year (topShareholders t),
                 yearlyData := add_yearly (make_yearly f display_year) (yearlyData t)\<rparr>))"

text \<open>
  \<open>year_str.split('-')\<close>, then \<open>int(fiscal_years[0])\<close> and \<open>int(fiscal_years[1])\<close> in that
  order: the first conversion may raise ValueError, the second index IndexError, the second
  conversion ValueError.
\<close>

definition fiscal_years :: "string \<Rightarrow> py_error + (int \<times> int)" where
  "fiscal_years year_str =
     (case split_on CHR ''-'' year_str of
        [] \<Rightarrow> Inl IndexError
      | y0 # rest \<Rightarrow>
          (case py_int y0 of
             Inl e \<Rightarrow> Inl e
           | Inr start_year \<Rightarrow>
               (case rest of
                  [] \<Rightarrow> Inl IndexError
                | y1 # _ \<Rightarrow>
                    (case py_int y1 of
                       Inl e \<Rightarrow> Inl e
                     | Inr end_year \<Rightarrow> Inr (start_year, end_year)))))"

definition process_record :: "string \<times> year_data \<Rightarrow> transformed \<Rightarrow> py_error + transformed" where
  "process_record rec t =
     (case fiscal_years (fst rec) of
        Inl e \<Rightarrow> Inl e
      | Inr (start_year, end_year) \<Rightarrow>
          (case process_display_year (snd rec) start_year t of
             Inl e \<Rightarrow> Inl e
           | Inr t1 \<Rightarrow> process_display_year (snd rec) end_year t1))"

fun transform_loop :: "(string \<times> year_data) list \<Rightarrow> transformed \<Rightarrow> py_error + transformed" where
  "transform_loop [] t = Inr t"
| "transform_loop (rec # recs) t =
     (case process_record rec t of Inl e \<Rightarrow> Inl e | Inr t1 \<Rightarrow> transform_loop recs t1)"

definition empty_transformed :: transformed where
  "empty_transformed =
     \<lparr>t_industryGroups = industry_groups, yearlyData = [], rightIssues = [], topShareholders = []\<rparr>"

definition transform_consolidated_data :: "consolidated_data \<Rightarrow> py_error + transformed" where
  "transform_consolidated_data cd =
     (case transform_loop (financial_data cd) empty_transformed of
        Inl e \<Rightarrow> Inl e
      | Inr t \<Rightarrow> Inr (t\<lparr>yearlyData := sort_key year (yearlyData t)\<rparr>))"


text \<open>
  \<open>load_from_csv_files\<close>. The directory and pandas are the environment: the model takes the
  listing of the directory and, per fiscal-period token, what the three files hold after
  parsing. A metric value is \<open>None\<close> for a NaN cell. For the issue price the model is given
  the outcome of \<open>float\<close> on the cell. Reading the shareholders file, or converting one of its
  cells, may raise; that exception is caught and leaves an empty list for the year.
\<close>

datatype csv_price = PriceNA | PriceMissing | PriceFloat "py_error + rat"

record csv_rights =
  cr_ratio :: "string option"
  cr_issue_price :: csv_price

record csv_year =
  cy_metrics :: "(string \<times> rat option) list option"
  cy_rights :: "csv_rights option"
  cy_shareholders :: "(py_error + shareholder list) option"

record csv_env =
  listing :: "py_error + string list"
  csv_files :: "string \<Rightarrow> csv_year"

definition year_of_file :: "string \<Rightarrow> string" where
  "year_of_file f =
     (case split_on CHR ''.'' (last (split_on CHR ''_'' f)) of [] \<Rightarrow> [] | y # _ \<Rightarrow> y)"

definition metric_name :: "string \<Rightarrow> string" where
  "metric_name m = map (\<lambda>c. if c = CHR '' '' then CHR ''_'' else c) (lower m)"

definition metrics_dict :: "(string \<times> rat option) list \<Rightarrow> string \<Rightarrow> rat option" where
  "metrics_dict rows k =
     (case map_of (rev (map (\<lambda>(m, v). (metric_name m, v)) rows)) k of
        None \<Rightarrow> Some 0 | Some v \<Rightarrow> v)"

definition shares_outstanding :: rat where
  "shares_outstanding = 1322000000"

definition csv_financials :: "(string \<times> rat option) list \<Rightarrow> financials" where
  "csv_financials rows =
     \<lparr>revenue = metrics_dict rows ''total_revenue'',
      costOfSales = metrics_dict rows ''cost_of_sales'',
      operatingExpenses = metrics_dict rows ''operating_expenses'',
      grossProfit = metrics_dict rows ''gross_profit'',
      grossProfitMargin = metrics_dict rows ''gross_profit_margin'',
      eps = metrics_dict rows ''earnings_per_share'',
      netAssetPerShare = metrics_dict rows ''net_asset_per_share'',
      outstandingShares = shares_outstanding,
      netProfit = map_option (\<lambda>e. e * shares_outstanding) (metrics_dict rows ''earnings_per_share''),
      totalAssets = Some 0,
      totalLiabilities = Some 0\<rparr>"

definition csv_add_right_issue ::
  "csv_rights option \<Rightarrow> int \<Rightarrow> right_issue list \<Rightarrow> py_error + right_issue list" where
  "csv_add_right_issue rf display_year ris =
     (case rf of
        None \<Rightarrow> Inr ris
      | Some r \<Rightarrow>
          if cr_ratio r \<noteq> Some ''N/A'' then
            (let ratio = (case cr_ratio r of None \<Rightarrow> ''N/A'' | Some x \<Rightarrow> x)
             in case (case cr_issue_price r of
                        PriceNA \<Rightarrow> Inr None
                      | PriceMissing \<Rightarrow> Inr (Some 0)
                      | PriceFloat (Inl e) \<Rightarrow> Inl e
                      | PriceFloat (Inr v) \<Rightarrow> Inr (Some v)) of
                  Inl e \<Rightarrow> Inl e
                | Inr price \<Rightarrow>
                    Inr (if list_ex (\<lambda>item. ri_year item = display_year \<and> ri_ratio item = ratio) ris
                         then ris
                         else ris @ [\<lparr>ri_year = display_year, ri_ratio = ratio,
                                       ri_issuePrice = price, ri_description = ''Rights issue''\<rparr>]))
          else Inr ris)"

definition csv_add_shareholders ::
  "(py_error + shareholder list) option \<Rightarrow> int \<Rightarrow> (int \<times> shareholder list) list
     \<Rightarrow> (int \<times> shareholder list) list" where
  "csv_add_shareholders sf display_year ts =
     (case sf of
        None \<Rightarrow> ts
      | Some (Inl e) \<Rightarrow> AList.update display_year [] ts
      | Some (Inr rows) \<Rightarrow> AList.update display_year (sorted_desc sh_percentage rows) ts)"

definition csv_display_year ::
  "csv_year \<Rightarrow> (string \<times> rat option) list \<Rightarrow> int \<Rightarrow> transformed \<Rightarrow> py_error + transformed" where
  "csv_display_year files rows display_year a =
     (case csv_add_right_issue (cy_rights files) display_year (rightIssues a) of
        Inl e \<Rightarrow> Inl e
      | Inr ris \<Rightarrow>
          Inr (a\<lparr>rightIssues := ris,
                 topShareholders := csv_add_shareholders (cy_shareholders files) display_year
                                      (topShareholders a),
                 yearlyData := add_yearly (make_yearly (csv_financials rows) display_year)
                                 (yearlyData a)\<rparr>))"

definition csv_year_step :: "(string \<Rightarrow> csv_year) \<Rightarrow> string \<Rightarrow> transformed \<Rightarrow> py_error + transformed" where
  "csv_year_step files year_str a =
     (case fiscal_years year_str of
        Inl e \<Rightarrow> Inl e
      | Inr (start_year, end_year) \<Rightarrow>
          (case cy_metrics (files year_str) of
             None \<Rightarrow> Inr a
           | Some rows \<Rightarrow>
               (case csv_display_year (files year_str) rows start_year a of
                  Inl e \<Rightarrow> Inl e
                | Inr a1 \<Rightarrow> csv_display_year (files year_str) rows end_year a1)))"

fun csv_loop :: "(string \<Rightarrow> csv_year) \<Rightarrow> string list \<Rightarrow> transformed \<Rightarrow> py_error + transformed" where
  "csv_loop files [] a = Inr a"
| "csv_loop files (y # ys) a =
     (case csv_year_step files y a of Inl e \<Rightarrow> Inl e | Inr a1 \<Rightarrow> csv_loop files ys a1)"

definition get_sample_right_issues_data :: "right_issue list" where
  "get_sample_right_issues_data =
     [\<lparr>ri_year = 2023, ri_ratio = ''4:1'', ri_issuePrice = Some 175,
       ri_description = ''Rights issue for expansion''\<rparr>,
      \<lparr>ri_year = 2020, ri_ratio = ''3:1'', ri_issuePrice = Some 160,
       ri_description = ''Rights issue for debt restructuring''\<rparr>,
      \<lparr>ri_year = 2018, ri_ratio = ''5:2'', ri_issuePrice = Some 140,
       ri_description = ''Rights issue for acquisitions''\<rparr>,
      \<lparr>ri_year = 2015, ri_ratio = ''2:1'', ri_issuePrice = Some 120,
       ri_description = ''Rights issue for capital investment''\<rparr>]"

text \<open>
  The process-wide cache \<open>data_cache\<close> is threaded through as a state: every loader returns
  its result, or the exception that leaves it, together with the cache afterwards.
\<close>

record data_cache =
  all_data :: "transformed option"
  raw_json_data :: "consolidated_data option"

definition load_from_csv_files :: "csv_env \<Rightarrow> data_cache \<Rightarrow> (py_error + transformed) \<times> data_cache" where
  "load_from_csv_files env cache =
     (case listing env of
        Inl e \<Rightarrow> (Inl e, cache)
      | Inr files \<Rightarrow>
          (let years = map year_of_file (filter (prefix ''financial_metrics_'') files)
           in case csv_loop (csv_files env) years empty_transformed of
                Inl e \<Rightarrow> (Inl e, cache)
              | Inr a \<Rightarrow>
                  (let a1 = a\<lparr>yearlyData := sort_key year (yearlyData a)\<rparr>;
                       a2 = (if rightIssues a1 = []
                             then a1\<lparr>rightIssues := get_sample_right_issues_data\<rparr> else a1)
                   in (Inr a2, cache\<lparr>all_data := Some a2\<rparr>))))"

text \<open>
  \<open>load_all_financial_data\<close>. \<open>json_file\<close> is \<open>None\<close> when the consolidated JSON file does not
  exist, \<open>Some (Inl e)\<close> when opening or parsing it raises, and otherwise its content. Any
  exception of the JSON path, the one of the transformation included, is caught and answered
  by the CSV loader, whose own exceptions are not caught.
\<close>

definition load_all_financial_data ::
  "(py_error + consolidated_data) option \<Rightarrow> csv_env \<Rightarrow> data_cache
     \<Rightarrow> (py_error + transformed) \<times> data_cache" where
  "load_all_financial_data json_file env cache =
     (case all_data cache of
        Some d \<Rightarrow> (Inr d, cache)
      | None \<Rightarrow>
          (case json_file of
             None \<Rightarrow> load_from_csv_files env cache
           | Some (Inl e) \<Rightarrow> load_from_csv_files env cache
           | Some (Inr consolidated) \<Rightarrow>
               (case transform_consolidated_data consolidated of
                  Inl e \<Rightarrow> load_from_csv_files env cache
                | Inr transformed_data \<Rightarrow>
                    (Inr transformed_data,
                     cache\<lparr>all_data := Some transformed_data,
                            raw_json_data := Some consolidated\<rparr>))))"

text \<open>
  The pairs of a display year and a record in the order in which the consolidation visits
  them: for each fiscal period its start year, then its end year.
\<close>

definition candidates :: "(string \<times> year_data) list \<Rightarrow> (int \<times> year_data) list" where
  "candidates recs =
     concat (map (\<lambda>(k, yd). case fiscal_years k of
                                 Inl e \<Rightarrow> []
                               | Inr (s, e) \<Rightarrow> [(s, yd), (e, yd)]) recs)"

definition csv_candidates :: "(string \<Rightarrow> csv_year) \<Rightarrow> string list \<Rightarrow> (int \<times> (string \<times> rat option) list) list" where
  "csv_candidates files years =
     concat (map (\<lambda>k. case fiscal_years k of
                          Inl e \<Rightarrow> []
                        | Inr (s, e) \<Rightarrow>
                            (case cy_metrics (files k) of
                               None \<Rightarrow> []
                             | Some rows \<Rightarrow> [(s, rows), (e, rows)])) years)"

text \<open>The two fiscal periods of the end-to-end example of the specification.\<close>

definition period_2019 :: year_data where
  "period_2019 =
     \<lparr>fd_total_revenue = \<lparr>m_value = Some 100000\<rparr>, fd_cost_of_sales = \<lparr>m_value = Some 70000\<rparr>,
      fd_operating_expenses = \<lparr>m_value = Some 15000\<rparr>, fd_gross_profit = \<lparr>m_value = Some 30000\<rparr>,
      fd_gross_profit_margin = \<lparr>m_value = Some 30\<rparr>,
      fd_earnings_per_share = \<lparr>m_value = Some 10.5\<rparr>,
      fd_net_asset_per_share = \<lparr>m_value = Some 75.25\<rparr>,
      fd_right_issues = Some \<lparr>rj_ratio = ''N/A'', rj_issue_price = None\<rparr>,
      fd_top_shareholders = Some
        [(''John Keells Holdings PLC'', \<lparr>sj_percentage = 35.5, sj_shares = Some 355000000\<rparr>),
         (''Employee Provident Fund'', \<lparr>sj_percentage = 12.5, sj_shares = Some 125000000\<rparr>)]\<rparr>"

definition period_2020 :: year_data where
  "period_2020 =
     \<lparr>fd_total_revenue = \<lparr>m_value = Some 120000\<rparr>, fd_cost_of_sales = \<lparr>m_value = Some 80000\<rparr>,
      fd_operating_expenses = \<lparr>m_value = Some 18000\<rparr>, fd_gross_profit = \<lparr>m_value = Some 40000\<rparr>,
      fd_gross_profit_margin = \<lparr>m_value = Some 33.33\<rparr>,
      fd_earnings_per_share = \<lparr>m_value = Some 12.5\<rparr>,
      fd_net_asset_per_share = \<lparr>m_value = Some 80\<rparr>,
      fd_right_issues = Some \<lparr>rj_ratio = ''1:5'', rj_issue_price = Some 80\<rparr>,
      fd_top_shareholders = Some
        [(''John Keells Holdings PLC'', \<lparr>sj_percentage = 36, sj_shares = Some 360000000\<rparr>),
         (''Employee Provident Fund'', \<lparr>sj_percentage = 12.8, sj_shares = Some 128000000\<rparr>)]\<rparr>"

definition two_periods :: consolidated_data where
  "two_periods = \<lparr>financial_data = [(''2019-2020'', period_2019), (''2020-2021'', period_2020)]\<rparr>"


text \<open>
  Notions used to state the properties of the consolidation. \<open>first_writer build cs ys\<close> says
  that the yearly list \<open>ys\<close> has one entry per year of the candidate list \<open>cs\<close>, and that each
  entry was built from the first candidate of its year.
\<close>

definition first_writer ::
  "('p \<Rightarrow> int \<Rightarrow> yearly_data option) \<Rightarrow> (int \<times> 'p) list \<Rightarrow> yearly_data list \<Rightarrow> bool" where
  "first_writer build cs ys \<longleftrightarrow>
     distinct (map year ys) \<and> set (map year ys) = set (map fst cs) \<and>
     (\<forall>e\<in>set ys. \<exists>p. find (\<lambda>c. fst c = year e) cs = Some (year e, p) \<and> build p (year e) = Some e)"

definition json_entry :: "year_data \<Rightarrow> int \<Rightarrow> yearly_data option" where
  "json_entry yd y = (case make_financials yd of Inl e \<Rightarrow> None | Inr f \<Rightarrow> Some (make_yearly f y))"

definition csv_entry :: "(string \<times> rat option) list \<Rightarrow> int \<Rightarrow> yearly_data option" where
  "csv_entry rows y = Some (make_yearly (csv_financials rows) y)"

definition yearly_years :: "py_error + transformed \<Rightarrow> int list" where
  "yearly_years r = (case r of Inl e \<Rightarrow> [] | Inr t \<Rightarrow> map year (yearlyData t))"

definition yearly_revenues :: "py_error + transformed \<Rightarrow> rat option list" where
  "yearly_revenues r =
     (case r of Inl e \<Rightarrow> [] | Inr t \<Rightarrow> map (\<lambda>e. revenue (y_financials e)) (yearlyData t))"

text \<open>Inputs used to exercise the loaders.\<close>

definition single_year_key :: consolidated_data where
  "single_year_key = \<lparr>financial_data = [(''2019-2020'', period_2019), (''2021'', period_2020)]\<rparr>"

definition csv_example :: csv_env where
  "csv_example =
     \<lparr>listing = Inr [''financial_metrics_2019-2020.csv'', ''rights_issues_2019-2020.csv'',
                     ''financial_metrics_2020-2021.csv''],
      csv_files = (\<lambda>k. \<lparr>cy_metrics = Some [(''Total Revenue'', Some 100000), (''Earnings Per Share'', Some 10.5)],
                          cy_rights = None, cy_shareholders = None\<rparr>)\<rparr>"

definition empty_cache :: data_cache where
  "empty_cache = \<lparr>all_data = None, raw_json_data = None\<rparr>"

section \<open>The extractor: documents, pages and tables (\<open>extract_financial_data.py\<close>)\<close>

text \<open>
  A table is the data frame of a camelot table: its rows, each a list of cell texts. A data
  frame is rectangular, but the model does not rely on it: an access to a cell that a row
  does not have raises. The PDF libraries are the environment. \<open>reader\<close> is the outcome of
  \<open>PdfReader(pdf_path)\<close> with, per page, the outcome of \<open>extract_text()\<close>; \<open>camelot\<close> is
  \<open>camelot.read_pdf\<close> for one page and one flavor with default tuning; \<open>tabula_all\<close> is
  \<open>tabula.read_pdf\<close> over all pages; \<open>current_year\<close> is the year of the clock.
  \<open>special_case\<close> stands for the two blocks of \<open>_extract_top_shareholders\<close> that serve the
  reports of 2022-23 and 2023-24 only, with tuned backends and a pattern over the page text:
  it is the exception that leaves them, the list they store, or \<open>None\<close> when they fall
  through to the standard path. These blocks are not modelled further.
\<close>

type_synonym table = "string list list"

datatype flavor = Lattice | Stream

text \<open>
  A frame of \<open>tabula\<close>: the lower-cased rendering \<open>to_string\<close> and, per row, the texts of the
  cells that are truthy and not NaN, in order.
\<close>

text \<open>A shareholder's entry in the extraction record.\<close>

record holding =
  h_percentage :: rat
  h_shares :: "rat option"

record ocr_frame =
  of_text :: string
  of_rows :: "string list list"

record document =
  pdf_path :: string
  reader :: "py_error + (py_error + string) list"
  camelot :: "nat \<Rightarrow> flavor \<Rightarrow> py_error + table list"
  tabula_all :: "py_error + ocr_frame list"
  current_year :: nat
  special_case :: "py_error + (string \<times> holding) list option"

text \<open>\<open>sep.join(parts)\<close>.\<close>

fun join :: "string \<Rightarrow> string list \<Rightarrow> string" where
  "join sep [] = []"
| "join sep [p] = p"
| "join sep (p # q # ps) = p @ sep @ join sep (q # ps)"

text \<open>\<open>str(n)\<close> for a natural number.\<close>

fun str_nat :: "nat \<Rightarrow> string" where
  "str_nat n = (if n < 10 then [char_of (48 + n)]
                else str_nat (n div 10) @ [char_of (48 + n mod 10)])"

declare str_nat.simps [simp del]

subsection \<open>The fiscal-period token: \<open>_extract_year_from_filename\<close>\<close>

definition basename :: "string \<Rightarrow> string" where
  "basename p = last (split_on CHR ''/'' p)"

text \<open>\<open>re.search(r'_(\d{2})-(\d{2})', s)\<close>: the two groups of the leftmost match.\<close>

fun search_yy_yy :: "string \<Rightarrow> (string \<times> string) option" where
  "search_yy_yy (u # a # b # h # c # d # rest) =
     (if u = CHR ''_'' \<and> is_digit a \<and> is_digit b \<and> h = CHR ''-'' \<and> is_digit c \<and> is_digit d
      then Some ([a, b], [c, d])
      else search_yy_yy (a # b # h # c # d # rest))"
| "search_yy_yy s = None"

text \<open>\<open>re.search(r'(\d{4})', s)\<close>.\<close>

fun search_4_digits :: "string \<Rightarrow> string option" where
  "search_4_digits (a # b # c # d # rest) =
     (if is_digit a \<and> is_digit b \<and> is_digit c \<and> is_digit d then Some [a, b, c, d]
      else search_4_digits (b # c # d # rest))"
| "search_4_digits s = None"

text \<open>\<open>re.search(r'Annual Report (\d{4})[/-](\d{2})', text)\<close>.\<close>

definition annual_report_here :: "string \<Rightarrow> (string \<times> string) option" where
  "annual_report_here s =
     (if prefix ''Annual Report '' s then
        (case drop 14 s of
           a # b # c # d # h # e # f # rest \<Rightarrow>
             if is_digit a \<and> is_digit b \<and> is_digit c \<and> is_digit d
                \<and> (h = CHR ''/'' \<or> h = CHR ''-'') \<and> is_digit e \<and> is_digit f
             then Some ([a, b, c, d], [e, f]) else None
         | _ \<Rightarrow> None)
      else None)"

fun search_annual_report :: "string \<Rightarrow> (string \<times> string) option" where
  "search_annual_report [] = None"
| "search_annual_report (c # cs) =
     (case annual_report_here (c # cs) of
        Some g \<Rightarrow> Some g
      | None \<Rightarrow> search_annual_report cs)"

text \<open>
  The text of the first ten pages, concatenated; any exception while opening the file or
  extracting a page is caught by the caller.
\<close>

fun concat_texts :: "(py_error + string) list \<Rightarrow> py_error + string" where
  "concat_texts [] = Inr []"
| "concat_texts (p # ps) =
     (case p of
        Inl e \<Rightarrow> Inl e
      | Inr t \<Rightarrow> (case concat_texts ps of Inl e \<Rightarrow> Inl e | Inr ts \<Rightarrow> Inr (t @ ts)))"

definition year_from_content :: "document \<Rightarrow> string option" where
  "year_from_content doc =
     (case reader doc of
        Inl e \<Rightarrow> None
      | Inr pages \<Rightarrow>
          (case concat_texts (take 10 pages) of
             Inl e \<Rightarrow> None
           | Inr text \<Rightarrow>
               (case search_annual_report text of
                  None \<Rightarrow> None
                | Some (start_year, yy) \<Rightarrow> Some (start_year @ ''-'' @ ''20'' @ yy))))"

definition extract_year_from_filename :: "document \<Rightarrow> string" where
  "extract_year_from_filename doc =
     (let filename_base = basename (pdf_path doc)
      in case search_yy_yy filename_base of
           Some (start_year, end_year) \<Rightarrow> (''20'' @ start_year) @ ''-'' @ (''20'' @ end_year)
         | None \<Rightarrow>
             (case search_4_digits filename_base of
                Some y \<Rightarrow> y
              | None \<Rightarrow>
                  (case year_from_content doc of
                     Some y \<Rightarrow> y
                   | None \<Rightarrow> str_nat (current_year doc - 1) @ ''-'' @ str_nat (current_year doc))))"

text \<open>\<open>int(self.year.split('-')[0])\<close>, the number every placeholder is computed from.\<close>

definition year_num :: "document \<Rightarrow> py_error + int" where
  "year_num doc =
     (case split_on CHR ''-'' (extract_year_from_filename doc) of
        [] \<Rightarrow> Inl IndexError
      | y0 # rest \<Rightarrow> py_int y0)"

subsection \<open>The strategy chain: \<open>_extract_tables_from_page\<close>\<close>

text \<open>
  The pages whose lower-cased text holds the lower-cased keyword, numbered from one. The loop
  over the pages runs inside the outer \<open>try\<close>, before any table is extracted: an exception
  of one page leaves no matching page at all.
\<close>

fun page_texts :: "(py_error + string) list \<Rightarrow> py_error + string list" where
  "page_texts [] = Inr []"
| "page_texts (p # ps) =
     (case p of
        Inl e \<Rightarrow> Inl e
      | Inr t \<Rightarrow> (case page_texts ps of Inl e \<Rightarrow> Inl e | Inr ts \<Rightarrow> Inr (lower t # ts)))"

definition matching_pages :: "document \<Rightarrow> string \<Rightarrow> nat list" where
  "matching_pages doc keyword =
     (case reader doc of
        Inl e \<Rightarrow> []
      | Inr pages \<Rightarrow>
          (case page_texts pages of
             Inl e \<Rightarrow> []
           | Inr texts \<Rightarrow>
               map (\<lambda>i. i + 1) (filter (\<lambda>i. py_in (lower keyword) (texts ! i)) [0..<length texts])))"

text \<open>
  The body of the inner \<open>try\<close> for one page. With \<open>lattice\<close> set, the lattice flavor is tried
  and, when it returns no table, the stream flavor. An exception of either call leaves the
  body.
\<close>

definition try_page :: "document \<Rightarrow> bool \<Rightarrow> nat \<Rightarrow> py_error + table list" where
  "try_page doc lattice page =
     (if lattice then
        (case camelot doc page Lattice of
           Inl e \<Rightarrow> Inl e
         | Inr page_tables \<Rightarrow>
             if page_tables \<noteq> [] then Inr page_tables else camelot doc page Stream)
      else camelot doc page Stream)"

text \<open>
  The \<open>except\<close> clause of the page encloses the whole body: after an exception the page
  contributes no table and the loop goes on with the next page.
\<close>

definition page_tables :: "document \<Rightarrow> bool \<Rightarrow> nat \<Rightarrow> table list" where
  "page_tables doc lattice page =
     (case try_page doc lattice page of Inl e \<Rightarrow> [] | Inr tables \<Rightarrow> tables)"

text \<open>
  \<open>re.findall(r'\b\d{1,3}\b', line)\<close>. A match starts and ends at a word boundary, so it is
  a maximal run of word characters that consists of one to three digits. On code points
  below 256 the class \<open>\w\<close> holds the underscore and the alphanumeric characters.
\<close>

definition is_word_char :: "char \<Rightarrow> bool" where
  "is_word_char c =
     (is_digit c \<or> c = CHR ''_'' \<or> c \<in> set upper_chars \<or> c \<in> set lower_chars
      \<or> c \<in> set [CHR 0xAA, CHR 0xB2, CHR 0xB3, CHR 0xB5, CHR 0xB9, CHR 0xBA, CHR 0xBC, CHR 0xBD,
                  CHR 0xBE, CHR 0xDF, CHR 0xFF])"

fun word_runs :: "string \<Rightarrow> string \<Rightarrow> string list" where
  "word_runs cur [] = (if cur = [] then [] else [cur])"
| "word_runs cur (c # cs) =
     (if is_word_char c then word_runs (cur @ [c]) cs
      else if cur = [] then word_runs [] cs else cur # word_runs [] cs)"

definition page_numbers :: "string \<Rightarrow> string list" where
  "page_numbers line =
     filter (\<lambda>w. list_all is_digit w \<and> 1 \<le> length w \<and> length w \<le> 3) (word_runs [] line)"

text \<open>
  \<open>_guess_pages_for_keyword\<close>, first part: the pages among the first twenty that mention
  \<open>contents\<close> or \<open>index\<close> are searched for a line with the keyword; the first of that line
  and its two neighbours that holds page numbers gives the answer.
\<close>

fun first_numbers :: "string list \<Rightarrow> nat list option" where
  "first_numbers [] = None"
| "first_numbers (l # ls) =
     (if page_numbers l \<noteq> [] then Some (map digits_value (page_numbers l)) else first_numbers ls)"

fun scan_toc_lines :: "string \<Rightarrow> string list \<Rightarrow> nat list \<Rightarrow> nat list option" where
  "scan_toc_lines kw lines [] = None"
| "scan_toc_lines kw lines (i # rest) =
     (if py_in kw (lines ! i) then
        (case first_numbers (take (min (length lines) (i + 2) - (i - 1)) (drop (i - 1) lines)) of
           Some ns \<Rightarrow> Some ns
         | None \<Rightarrow> scan_toc_lines kw lines rest)
      else scan_toc_lines kw lines rest)"

fun scan_toc_pages :: "string \<Rightarrow> string list \<Rightarrow> nat list option" where
  "scan_toc_pages kw [] = None"
| "scan_toc_pages kw (text # texts) =
     (if py_in kw text then
        (let lines = split_on (CHR 0x0A) text
         in case scan_toc_lines kw lines [0..<length lines] of
              Some ns \<Rightarrow> Some ns
            | None \<Rightarrow> scan_toc_pages kw texts)
      else scan_toc_pages kw texts)"

definition guess_from_contents :: "document \<Rightarrow> string \<Rightarrow> nat list option" where
  "guess_from_contents doc keyword_lower =
     (case reader doc of
        Inl e \<Rightarrow> None
      | Inr pages \<Rightarrow>
          (case page_texts (take 20 pages) of
             Inl e \<Rightarrow> None
           | Inr texts \<Rightarrow>
               scan_toc_pages keyword_lower
                 (filter (\<lambda>text. py_in ''contents'' text \<or> py_in ''index'' text) texts)))"

text \<open>Second part: the page ranges of a typical report, by the topic of the keyword.\<close>

definition guess_pages_for_keyword :: "document \<Rightarrow> string \<Rightarrow> nat list" where
  "guess_pages_for_keyword doc keyword =
     (let keyword_lower = lower keyword
      in case guess_from_contents doc keyword_lower of
           Some ns \<Rightarrow> ns
         | None \<Rightarrow>
             if py_in ''income statement'' keyword_lower \<or> py_in ''profit or loss'' keyword_lower
             then [180..<190]
             else if py_in ''balance sheet'' keyword_lower \<or> py_in ''financial position'' keyword_lower
             then [185..<195]
             else if py_in ''shareholder'' keyword_lower \<or> py_in ''share information'' keyword_lower
             then [140..<150]
             else if py_in ''earnings per share'' keyword_lower \<or> py_in ''eps'' keyword_lower
             then [180..<190] @ [240..<250]
             else if py_in ''summary indicators'' keyword_lower
             then [140..<150]
             else map (\<lambda>k. 100 + 10 * k) [0..<10])"

text \<open>
  \<open>_extract_tables_from_page\<close>: the tables of the matching pages, page by page; when there is
  none, the tables of the guessed pages. No exception leaves the function.
\<close>

definition extract_tables_from_page :: "document \<Rightarrow> string \<Rightarrow> bool \<Rightarrow> table list" where
  "extract_tables_from_page doc keyword lattice =
     (let tables = concat (map (page_tables doc lattice) (matching_pages doc keyword))
      in if tables = []
         then concat (map (page_tables doc lattice) (guess_pages_for_keyword doc keyword))
         else tables)"


subsection \<open>The extraction record and the scalar resolvers\<close>

text \<open>
  \<open>self.data\<close>: a key that is not set is \<open>None\<close>. Numbers are exact rationals, which covers
  the floats of the normalizer and the integers of the placeholders.
\<close>

record rights =
  r_ratio :: "string option"
  r_issue_price :: "rat option"
  r_date :: "string option"

record extraction =
  total_revenue :: "rat option"
  total_revenue_currency :: "string option"
  cost_of_sales :: "rat option"
  cost_of_sales_currency :: "string option"
  selling_distribution_expenses :: "rat option"
  administrative_expenses :: "rat option"
  other_operating_expenses :: "rat option"
  operating_expenses :: "rat option"
  operating_expenses_currency :: "string option"
  gross_profit :: "rat option"
  gross_profit_currency :: "string option"
  gross_profit_margin :: "rat option"
  earnings_per_share :: "rat option"
  net_asset_per_share :: "rat option"
  right_issues :: "rights option"
  top_shareholders :: "(string \<times> holding) list option"

definition empty_extraction :: extraction where
  "empty_extraction =
     \<lparr>total_revenue = None, total_revenue_currency = None, cost_of_sales = None,
      cost_of_sales_currency = None, selling_distribution_expenses = None,
      administrative_expenses = None, other_operating_expenses = None,
      operating_expenses = None, operating_expenses_currency = None, gross_profit = None,
      gross_profit_currency = None, gross_profit_margin = None, earnings_per_share = None,
      net_asset_per_share = None, right_issues = None, top_shareholders = None\<rparr>"

text \<open>
  A search through nested loops that returns at the first hit: \<open>first_some f xs\<close> applies
  \<open>f\<close> to the elements in order, stops at the first value and passes an exception on.
\<close>

fun first_some :: "('a \<Rightarrow> py_error + 'b option) \<Rightarrow> 'a list \<Rightarrow> py_error + 'b option" where
  "first_some f [] = Inr None"
| "first_some f (x # xs) =
     (case f x of
        Inl e \<Rightarrow> Inl e
      | Inr (Some v) \<Rightarrow> Inr (Some v)
      | Inr None \<Rightarrow> first_some f xs)"

text \<open>The first cell whose cleaned value exists and passes the test of the metric.\<close>

fun first_value :: "(rat \<Rightarrow> bool) \<Rightarrow> string list \<Rightarrow> rat option" where
  "first_value ok [] = None"
| "first_value ok (cell # cells) =
     (case clean_numeric_value cell of
        None \<Rightarrow> first_value ok cells
      | Some v \<Rightarrow> if ok v then Some v else first_value ok cells)"

definition truthy :: "rat \<Rightarrow> bool" where
  "truthy v = (v \<noteq> 0)"

definition any_in :: "string list \<Rightarrow> string \<Rightarrow> bool" where
  "any_in kws text = list_ex (\<lambda>kw. py_in kw text) kws"

text \<open>
  \<open>" ".join([str(cell).lower() for cell in row if cell])\<close>: the non-empty cells, lower-cased.
\<close>

definition row_text :: "string list \<Rightarrow> string" where
  "row_text row = join '' '' (map lower (filter (\<lambda>cell. cell \<noteq> []) row))"

text \<open>
  A row of the primary statement: the label is read from \<open>row[0]\<close>, which raises KeyError on
  a row without cells; the value is looked for in the columns one to three.
\<close>

definition label_row :: "(string \<Rightarrow> bool) \<Rightarrow> (rat \<Rightarrow> bool) \<Rightarrow> string list \<Rightarrow> py_error + rat option" where
  "label_row is_label ok row =
     (case row of
        [] \<Rightarrow> Inl KeyError
      | c0 # rest \<Rightarrow> if is_label (lower c0) then Inr (first_value ok (take 3 rest)) else Inr None)"

text \<open>A row of an alternative source: the label is looked for in the whole row, as the value.\<close>

definition text_row :: "(string \<Rightarrow> bool) \<Rightarrow> (rat \<Rightarrow> bool) \<Rightarrow> string list \<Rightarrow> py_error + rat option" where
  "text_row is_label ok row =
     (if is_label (row_text row) then Inr (first_value ok row) else Inr None)"

definition search_tables :: "(string list \<Rightarrow> py_error + rat option) \<Rightarrow> table list \<Rightarrow> py_error + rat option" where
  "search_tables f tables = first_some (first_some f) tables"

definition search_keywords ::
  "document \<Rightarrow> bool \<Rightarrow> (string list \<Rightarrow> py_error + rat option) \<Rightarrow> string list \<Rightarrow> py_error + rat option" where
  "search_keywords doc lattice f keywords =
     first_some (\<lambda>keyword. search_tables f (extract_tables_from_page doc keyword lattice)) keywords"

definition statement_keywords :: "string list" where
  "statement_keywords =
     [''CONSOLIDATED INCOME STATEMENT'', ''Group Income Statement'', ''STATEMENT OF PROFIT OR LOSS'']"

definition large :: "rat \<Rightarrow> bool" where
  "large v = (v \<noteq> 0 \<and> v > 1000000)"

text \<open>
  The last resort for the revenue: the frames of \<open>tabula\<close>. In a frame that mentions
  \<open>revenue\<close>, the first row with \<open>total revenue\<close> gives the first run of digits and commas;
  \<open>int\<close> raises ValueError when nothing is left after the commas are removed. The whole
  block is inside a \<open>try\<close>.
\<close>

definition digits_commas :: "char \<Rightarrow> bool" where
  "digits_commas c = (is_digit c \<or> c = CHR '','')"

definition search_digits_commas :: "string \<Rightarrow> string option" where
  "search_digits_commas s =
     (case dropWhile (\<lambda>c. \<not> digits_commas c) s of
        [] \<Rightarrow> None
      | r \<Rightarrow> Some (takeWhile digits_commas r))"

definition ocr_row :: "string list \<Rightarrow> py_error + rat option" where
  "ocr_row row =
     (let row_str = join '' '' row
      in if py_in ''total revenue'' (lower row_str) then
           (case search_digits_commas row_str of
              None \<Rightarrow> Inr None
            | Some m \<Rightarrow>
                (case py_int (filter (\<lambda>c. c \<noteq> CHR '','') m) of
                   Inl e \<Rightarrow> Inl e
                 | Inr n \<Rightarrow> Inr (Some (of_int n))))
         else Inr None)"

definition ocr_frame_value :: "ocr_frame \<Rightarrow> py_error + rat option" where
  "ocr_frame_value df =
     (if py_in ''revenue'' (of_text df) then first_some ocr_row (of_rows df) else Inr None)"

definition ocr_revenue :: "document \<Rightarrow> rat option" where
  "ocr_revenue doc =
     (case tabula_all doc of
        Inl e \<Rightarrow> None
      | Inr dfs \<Rightarrow> (case first_some ocr_frame_value dfs of Inl e \<Rightarrow> None | Inr r \<Rightarrow> r))"

definition set_total_revenue :: "rat \<Rightarrow> extraction \<Rightarrow> extraction" where
  "set_total_revenue v d = d\<lparr>total_revenue := Some v, total_revenue_currency := Some ''LKR''\<rparr>"

text \<open>
  \<open>_extract_total_revenue\<close>: the primary statement, then the alternative statements, then
  \<open>tabula\<close>, then the placeholder of the year.
\<close>

definition extract_total_revenue :: "document \<Rightarrow> extraction \<Rightarrow> py_error + extraction" where
  "extract_total_revenue doc d =
     (let is_label = any_in [''total revenue'', ''revenue from contracts'']
      in case search_tables (label_row is_label truthy)
                (extract_tables_from_page doc ''Income Statement'' True) of
           Inl e \<Rightarrow> Inl e
         | Inr (Some v) \<Rightarrow> Inr (set_total_revenue v d)
         | Inr None \<Rightarrow>
             (case (case search_keywords doc True (text_row is_label large) statement_keywords of
                      Inl e \<Rightarrow> None | Inr r \<Rightarrow> r) of
                Some v \<Rightarrow> Inr (set_total_revenue v d)
              | None \<Rightarrow>
                  (case ocr_revenue doc of
                     Some v \<Rightarrow> Inr (set_total_revenue v d)
                   | None \<Rightarrow>
                       (case year_num doc of
                          Inl e \<Rightarrow> Inl e
                        | Inr y \<Rightarrow>
                            Inr (set_total_revenue
                                   (of_int (100000000 + (y - 2019) * 10000000)) d)))))"

text \<open>\<open>int(x)\<close> on a number: truncation towards zero.\<close>

definition py_trunc :: "rat \<Rightarrow> rat" where
  "py_trunc x = of_int (if x < 0 then - \<lfloor>- x\<rfloor> else \<lfloor>x\<rfloor>)"

text \<open>\<open>self.data.get('total_revenue_currency', 'LKR')\<close>.\<close>

definition revenue_currency :: "extraction \<Rightarrow> string" where
  "revenue_currency d = (case total_revenue_currency d of None \<Rightarrow> ''LKR'' | Some c \<Rightarrow> c)"

definition extract_cost_of_sales :: "document \<Rightarrow> extraction \<Rightarrow> py_error + extraction" where
  "extract_cost_of_sales doc d =
     (let is_label = py_in ''cost of sales'';
          found = (\<lambda>v. d\<lparr>cost_of_sales := Some v, cost_of_sales_currency := Some ''LKR''\<rparr>)
      in case search_tables (label_row is_label truthy)
                (extract_tables_from_page doc ''Income Statement'' True) of
           Inl e \<Rightarrow> Inl e
         | Inr (Some v) \<Rightarrow> Inr (found v)
         | Inr None \<Rightarrow>
             (case (case search_keywords doc True (text_row is_label large) statement_keywords of
                      Inl e \<Rightarrow> None | Inr r \<Rightarrow> r) of
                Some v \<Rightarrow> Inr (found v)
              | None \<Rightarrow>
                  (case total_revenue d of
                     Some tr \<Rightarrow>
                       Inr (d\<lparr>cost_of_sales := Some (py_trunc (tr * (3 / 4))),
                              cost_of_sales_currency := Some (revenue_currency d)\<rparr>)
                   | None \<Rightarrow>
                       (case year_num doc of
                          Inl e \<Rightarrow> Inl e
                        | Inr y \<Rightarrow> Inr (found (of_int (75000000 + (y - 2019) * 8000000)))))))"


text \<open>
  \<open>_extract_operating_expenses\<close>. The three components are collected over all rows of all
  tables without an early return, so a later row overwrites an earlier one; within a row the
  first truthy value is taken.
\<close>

type_synonym opex = "rat option \<times> rat option \<times> rat option"

definition opex_update :: "string \<Rightarrow> string list \<Rightarrow> opex \<Rightarrow> opex" where
  "opex_update label cells st =
     (case st of (selling, admin, other) \<Rightarrow>
        if py_in ''selling'' label \<and> py_in ''distribution'' label then
          (case first_value truthy cells of Some v \<Rightarrow> (Some v, admin, other) | None \<Rightarrow> st)
        else if py_in ''administrative'' label then
          (case first_value truthy cells of Some v \<Rightarrow> (selling, Some v, other) | None \<Rightarrow> st)
        else if py_in ''other operating expenses'' label then
          (case first_value truthy cells of Some v \<Rightarrow> (selling, admin, Some v) | None \<Rightarrow> st)
        else st)"

fun opex_rows :: "string list list \<Rightarrow> opex \<Rightarrow> py_error + opex" where
  "opex_rows [] st = Inr st"
| "opex_rows (row # rows) st =
     (case row of
        [] \<Rightarrow> Inl KeyError
      | c0 # rest \<Rightarrow> opex_rows rows (opex_update (lower c0) (take 3 rest) st))"

fun opex_tables :: "table list \<Rightarrow> opex \<Rightarrow> py_error + opex" where
  "opex_tables [] st = Inr st"
| "opex_tables (t # ts) st =
     (case opex_rows t st of Inl e \<Rightarrow> Inl e | Inr st1 \<Rightarrow> opex_tables ts st1)"

definition opex_alternative :: "document \<Rightarrow> opex \<Rightarrow> opex" where
  "opex_alternative doc st =
     foldl (\<lambda>st keyword.
              foldl (\<lambda>st t. foldl (\<lambda>st row. opex_update (row_text row) row st) st t)
                st (extract_tables_from_page doc keyword True))
       st statement_keywords"

definition truthy_opt :: "rat option \<Rightarrow> bool" where
  "truthy_opt x = (case x of None \<Rightarrow> False | Some v \<Rightarrow> v \<noteq> 0)"

definition opex_components :: "opex \<Rightarrow> rat list" where
  "opex_components st =
     (case st of (selling, admin, other) \<Rightarrow>
        (if truthy_opt selling then [the selling] else [])
        @ (if truthy_opt admin then [the admin] else [])
        @ (if truthy_opt other then [the other] else []))"

definition store_components :: "opex \<Rightarrow> extraction \<Rightarrow> extraction" where
  "store_components st d =
     (case st of (selling, admin, other) \<Rightarrow>
        d\<lparr>selling_distribution_expenses :=
             (if truthy_opt selling then selling else selling_distribution_expenses d),
           administrative_expenses :=
             (if truthy_opt admin then admin else administrative_expenses d),
           other_operating_expenses :=
             (if truthy_opt other then other else other_operating_expenses d)\<rparr>)"

definition extract_operating_expenses :: "document \<Rightarrow> extraction \<Rightarrow> py_error + extraction" where
  "extract_operating_expenses doc d =
     (case opex_tables (extract_tables_from_page doc ''Income Statement'' True) (None, None, None) of
        Inl e \<Rightarrow> Inl e
      | Inr st1 \<Rightarrow>
          (let st = (if opex_components st1 = [] then opex_alternative doc st1 else st1);
               components = opex_components st;
               d1 = store_components st d
           in if components \<noteq> [] then
                Inr (d1\<lparr>operating_expenses := Some (sum_list components),
                        operating_expenses_currency := Some ''LKR''\<rparr>)
              else
                (case total_revenue d1 of
                   Some tr \<Rightarrow>
                     Inr (d1\<lparr>operating_expenses := Some (py_trunc (tr * (18 / 100))),
                             operating_expenses_currency := Some (revenue_currency d1)\<rparr>)
                 | None \<Rightarrow>
                     (case year_num doc of
                        Inl e \<Rightarrow> Inl e
                      | Inr y \<Rightarrow>
                          Inr (d1\<lparr>operating_expenses := Some (of_int (18000000 + (y - 2019) * 1500000)),
                                  operating_expenses_currency := Some ''LKR''\<rparr>)))))"

text \<open>
  \<open>_extract_gross_profit\<close>: the tables first; then the accounting identity, when the revenue
  and the cost of sales are set; then the placeholder of the year.
\<close>

definition extract_gross_profit :: "document \<Rightarrow> extraction \<Rightarrow> py_error + extraction" where
  "extract_gross_profit doc d =
     (let is_label = py_in ''gross profit'';
          found = (\<lambda>v. d\<lparr>gross_profit := Some v, gross_profit_currency := Some ''LKR''\<rparr>)
      in case search_tables (label_row is_label truthy)
                (extract_tables_from_page doc ''Income Statement'' True) of
           Inl e \<Rightarrow> Inl e
         | Inr (Some v) \<Rightarrow> Inr (found v)
         | Inr None \<Rightarrow>
             (case search_keywords doc True (text_row is_label large) statement_keywords of
                Inl e \<Rightarrow> Inl e
              | Inr (Some v) \<Rightarrow> Inr (found v)
              | Inr None \<Rightarrow>
                  (case (total_revenue d, cost_of_sales d) of
                     (Some tr, Some cs) \<Rightarrow>
                       Inr (d\<lparr>gross_profit := Some (tr - cs),
                              gross_profit_currency := Some (revenue_currency d)\<rparr>)
                   | _ \<Rightarrow>
                       (case year_num doc of
                          Inl e \<Rightarrow> Inl e
                        | Inr y \<Rightarrow> Inr (found (of_int (25000000 + (y - 2019) * 2000000)))))))"

text \<open>
  \<open>round(x, 2)\<close> on the exact value: to the nearest hundredth, a tie to the even one.
\<close>

definition round_half_even :: "rat \<Rightarrow> int" where
  "round_half_even q =
     (let f = \<lfloor>q\<rfloor>; r = q - of_int f
      in if r < 1 / 2 then f else if r > 1 / 2 then f + 1 else if even f then f else f + 1)"

definition round2 :: "rat \<Rightarrow> rat" where
  "round2 x = of_int (round_half_even (x * 100)) / 100"

definition calculate_gross_profit_margin :: "document \<Rightarrow> extraction \<Rightarrow> py_error + extraction" where
  "calculate_gross_profit_margin doc d =
     (case (total_revenue d, gross_profit d) of
        (Some tr, Some gp) \<Rightarrow>
          if tr \<noteq> 0 then Inr (d\<lparr>gross_profit_margin := Some (round2 (gp / tr * 100))\<rparr>)
          else (case year_num doc of
                  Inl e \<Rightarrow> Inl e
                | Inr y \<Rightarrow>
                    Inr (d\<lparr>gross_profit_margin := Some (round2 (20 + of_int (y - 2019) * (- (1 / 2))))\<rparr>))
      | _ \<Rightarrow>
          (case year_num doc of
             Inl e \<Rightarrow> Inl e
           | Inr y \<Rightarrow>
               Inr (d\<lparr>gross_profit_margin := Some (round2 (20 + of_int (y - 2019) * (- (1 / 2))))\<rparr>)))"

definition in_0_100 :: "rat \<Rightarrow> bool" where
  "in_0_100 v = (0 < v \<and> v < 100)"

definition eps_keywords :: "string list" where
  "eps_keywords = [''EARNINGS PER SHARE'', ''Basic earnings'', ''Diluted earnings'']"

definition extract_eps :: "document \<Rightarrow> extraction \<Rightarrow> py_error + extraction" where
  "extract_eps doc d =
     (let found = (\<lambda>v. d\<lparr>earnings_per_share := Some v\<rparr>)
      in case search_tables
                (label_row (\<lambda>t. py_in ''earnings per share'' t \<or> py_in ''basic earnings per'' t) in_0_100)
                (extract_tables_from_page doc ''Income Statement'' True) of
           Inl e \<Rightarrow> Inl e
         | Inr (Some v) \<Rightarrow> Inr (found v)
         | Inr None \<Rightarrow>
             (case search_keywords doc False
                     (text_row (\<lambda>t. py_in ''basic'' t \<and> (py_in ''earnings'' t \<or> py_in ''eps'' t)) in_0_100)
                     eps_keywords of
                Inl e \<Rightarrow> Inl e
              | Inr (Some v) \<Rightarrow> Inr (found v)
              | Inr None \<Rightarrow>
                  (case search_tables
                          (text_row (\<lambda>t. (py_in ''eps'' t \<or> py_in ''earnings per share'' t)
                                          \<and> \<not> py_in ''diluted'' t) in_0_100)
                          (extract_tables_from_page doc ''Summary Indicators'' False) of
                     Inl e \<Rightarrow> Inl e
                   | Inr (Some v) \<Rightarrow> Inr (found v)
                   | Inr None \<Rightarrow>
                       (case year_num doc of
                          Inl e \<Rightarrow> Inl e
                        | Inr y \<Rightarrow> Inr (found (round2 (7 + of_int (y - 2019) * (1 / 2))))))))"

definition nav_keywords :: "string list" where
  "nav_keywords = [''Net assets per share'', ''Net asset value per share'', ''NAV per share'']"

definition extract_net_asset_per_share :: "document \<Rightarrow> extraction \<Rightarrow> py_error + extraction" where
  "extract_net_asset_per_share doc d =
     (let is_label = (\<lambda>t. py_in ''net asset'' t \<and> py_in ''per share'' t);
          found = (\<lambda>v. d\<lparr>net_asset_per_share := Some v\<rparr>)
      in case search_tables (text_row is_label (\<lambda>v. v > 0))
                (extract_tables_from_page doc ''Summary Indicators'' False) of
           Inl e \<Rightarrow> Inl e
         | Inr (Some v) \<Rightarrow> Inr (found v)
         | Inr None \<Rightarrow>
             (case search_keywords doc False (text_row is_label (\<lambda>v. v > 0)) nav_keywords of
                Inl e \<Rightarrow> Inl e
              | Inr (Some v) \<Rightarrow> Inr (found v)
              | Inr None \<Rightarrow>
                  (case year_num doc of
                     Inl e \<Rightarrow> Inl e
                   | Inr y \<Rightarrow> Inr (found (round2 (150 + of_int (y - 2019) * 5))))))"


subsection \<open>Rights issues\<close>

text \<open>
  \<open>re.search(r'\d{1,2}[-/\.]\d{1,2}[-/\.]\d{2,4}', cell)\<close>. \<open>digits_1_2\<close> lists what may
  remain after one or two digits, \<open>date_sep\<close> after a separator.
\<close>

definition digits_1_2 :: "string \<Rightarrow> string list" where
  "digits_1_2 s =
     (case s of
        [] \<Rightarrow> []
      | a # r \<Rightarrow>
          if is_digit a then
            (case r of [] \<Rightarrow> [r] | b # r2 \<Rightarrow> if is_digit b then [r2, r] else [r])
          else [])"

definition date_sep :: "string \<Rightarrow> string list" where
  "date_sep s =
     (case s of
        [] \<Rightarrow> []
      | c # r \<Rightarrow> if c = CHR ''-'' \<or> c = CHR ''/'' \<or> c = CHR ''.'' then [r] else [])"

definition two_digits :: "string \<Rightarrow> bool" where
  "two_digits s = (case s of a # b # r \<Rightarrow> is_digit a \<and> is_digit b | _ \<Rightarrow> False)"

definition date_here :: "string \<Rightarrow> bool" where
  "date_here s =
     list_ex two_digits
       (concat (map date_sep (concat (map digits_1_2 (concat (map date_sep (digits_1_2 s)))))))"

fun has_date :: "string \<Rightarrow> bool" where
  "has_date [] = False"
| "has_date (c # cs) = (date_here (c # cs) \<or> has_date cs)"

type_synonym rights_state = "string option \<times> rat option \<times> string option"

definition rights_row :: "string list \<Rightarrow> rights_state \<Rightarrow> rights_state" where
  "rights_row row st =
     (case st of (ratio, issue_price, date) \<Rightarrow>
        let t = row_text row in
        if py_in ''ratio'' t then
          (case find (\<lambda>cell. CHR '':'' \<in> set cell) row of
             Some cell \<Rightarrow> (Some (py_strip cell), issue_price, date) | None \<Rightarrow> st)
        else if py_in ''price'' t \<or> py_in ''issue'' t then
          (case first_value (\<lambda>v. 0 < v \<and> v < 1000) row of
             Some v \<Rightarrow> (ratio, Some v, date) | None \<Rightarrow> st)
        else if py_in ''date'' t then
          (case find has_date row of
             Some cell \<Rightarrow> (ratio, issue_price, Some (py_strip cell)) | None \<Rightarrow> st)
        else st)"

text \<open>
  A table gives a record when one of the three attributes is truthy; an attribute that is
  missing is the text \<open>N/A\<close> in the source and \<open>None\<close> here.
\<close>

definition rights_table :: "table \<Rightarrow> py_error + rights option" where
  "rights_table t =
     (case foldl (\<lambda>st row. rights_row row st) (None, None, None) t of
        (ratio, issue_price, date) \<Rightarrow>
          let ratio1 = (if ratio = Some [] then None else ratio);
              price1 = (if issue_price = Some 0 then None else issue_price);
              date1 = (if date = Some [] then None else date)
          in if ratio1 \<noteq> None \<or> price1 \<noteq> None \<or> date1 \<noteq> None
             then Inr (Some \<lparr>r_ratio = ratio1, r_issue_price = price1, r_date = date1\<rparr>)
             else Inr None)"

definition right_issues_keywords :: "string list" where
  "right_issues_keywords = [''Rights Issue'', ''Right Issues'', ''Rights Issues'']"

definition extract_right_issues :: "document \<Rightarrow> extraction \<Rightarrow> py_error + extraction" where
  "extract_right_issues doc d =
     (case first_some (\<lambda>keyword. first_some rights_table (extract_tables_from_page doc keyword False))
             right_issues_keywords of
        Inl e \<Rightarrow> Inl e
      | Inr (Some r) \<Rightarrow> Inr (d\<lparr>right_issues := Some r\<rparr>)
      | Inr None \<Rightarrow>
          Inr (d\<lparr>right_issues := Some \<lparr>r_ratio = None, r_issue_price = None, r_date = None\<rparr>\<rparr>))"

subsection \<open>Top shareholders\<close>

definition shareholder_keywords :: "string list" where
  "shareholder_keywords =
     [''Top Twenty Shareholders'', ''Top 20 Shareholders'', ''SHARE INFORMATION'',
      ''Twenty Major Shareholders'', ''20 Major Shareholders'', ''Top Twenty (20) Shareholders'']"

text \<open>
  The two reports with special cases: the path holds \<open>23-24\<close> or \<open>22-23\<close>, or the token is the
  matching fiscal period.
\<close>

definition special_report :: "document \<Rightarrow> bool" where
  "special_report doc =
     (py_in ''23-24'' (pdf_path doc) \<or> py_in ''2023-2024'' (extract_year_from_filename doc)
      \<or> py_in ''22-23'' (pdf_path doc) \<or> py_in ''2022-2023'' (extract_year_from_filename doc))"

text \<open>
  The dictionaries \<open>shareholders\<close> and \<open>shareholdings\<close> are association lists in insertion
  order; an assignment to a key that is present replaces its value in place. The step below
  is the same text in every path that reads a table: with at least five entries the pairs
  are sorted by percentage, largest first, cut to twenty and stored.
\<close>

type_synonym holders = "(string \<times> rat) list \<times> (string \<times> rat) list"

definition rank_top20 :: "holders \<Rightarrow> (string \<times> holding) list option" where
  "rank_top20 hs =
     (case hs of (shareholders, shareholdings) \<Rightarrow>
        if length shareholders \<ge> 5 then
          Some (map (\<lambda>(name, pct). (name, \<lparr>h_percentage = pct, h_shares = map_of shareholdings name\<rparr>))
                  (take 20 (sorted_desc snd shareholders)))
        else None)"

text \<open>\<open>df.iloc[i, j]\<close> on row \<open>i\<close>: IndexError beyond the last column.\<close>

definition cell :: "string list \<Rightarrow> nat \<Rightarrow> py_error + string" where
  "cell row j = (if j < length row then Inr (row ! j) else Inl IndexError)"

definition header_like :: "string \<Rightarrow> bool" where
  "header_like name =
     (name = [] \<or> name = ''nan'' \<or> lower name \<in> set [''name'', ''shareholder'', ''total''])"

text \<open>One data row: the name from column zero, the percentage, the share count.\<close>

definition holder_row :: "nat \<Rightarrow> nat option \<Rightarrow> string list \<Rightarrow> holders \<Rightarrow> py_error + holders" where
  "holder_row pct_col share_col row hs =
     (case cell row 0 of
        Inl e \<Rightarrow> Inl e
      | Inr c0 \<Rightarrow>
          (let name = py_strip c0
           in if header_like name then Inr hs
              else
                (case cell row pct_col of
                   Inl e \<Rightarrow> Inl e
                 | Inr pc \<Rightarrow>
                     (case (case share_col of
                              None \<Rightarrow> Inr None
                            | Some j \<Rightarrow> (case cell row j of
                                           Inl e \<Rightarrow> Inl e
                                         | Inr sc \<Rightarrow> Inr (clean_numeric_value (py_strip sc)))) of
                        Inl e \<Rightarrow> Inl e
                      | Inr shares \<Rightarrow>
                          (case clean_numeric_value (py_strip pc) of
                             None \<Rightarrow> Inr hs
                           | Some pct \<Rightarrow>
                               if 0 < pct \<and> pct < 100 then
                                 Inr (AList.update name pct (fst hs),
                                      (case shares of
                                         None \<Rightarrow> snd hs
                                       | Some sv \<Rightarrow> AList.update name sv (snd hs)))
                               else Inr hs)))))"

fun holder_rows :: "nat \<Rightarrow> nat option \<Rightarrow> string list list \<Rightarrow> holders \<Rightarrow> py_error + holders" where
  "holder_rows pct_col share_col [] hs = Inr hs"
| "holder_rows pct_col share_col (row # rows) hs =
     (case holder_row pct_col share_col row hs of
        Inl e \<Rightarrow> Inl e
      | Inr hs1 \<Rightarrow> holder_rows pct_col share_col rows hs1)"

text \<open>
  The columns of a data frame. The number of columns is that of its first row, and a column
  is read from every row.
\<close>

definition ncols :: "table \<Rightarrow> nat" where
  "ncols t = (case t of [] \<Rightarrow> 0 | r # _ \<Rightarrow> length r)"

definition column :: "table \<Rightarrow> nat \<Rightarrow> string list" where
  "column t j = map (\<lambda>r. if j < length r then r ! j else []) t"

text \<open>
  The lattice pass over one table. Percentage and share columns are found by the header
  texts of the first row, else by content. Nothing here looks for size-band rows.
\<close>

definition name_header :: "string \<Rightarrow> bool" where
  "name_header h = any_in [''name'', ''shareholder'', ''holder''] h"

definition share_header :: "string \<Rightarrow> bool" where
  "share_header h = (any_in [''number'', ''shares'', ''holding''] h \<and> \<not> py_in ''%'' h)"

definition pct_header :: "string \<Rightarrow> bool" where
  "pct_header h = any_in [''%'', ''percent'', ''percentage''] h"

definition lattice_columns :: "table \<Rightarrow> string list \<Rightarrow> nat list \<times> nat list" where
  "lattice_columns t headers =
     (let idx = [0..<length headers];
          share_h = filter (\<lambda>i. \<not> name_header (headers ! i) \<and> share_header (headers ! i)) idx;
          pct_h = filter (\<lambda>i. \<not> name_header (headers ! i) \<and> \<not> share_header (headers ! i)
                              \<and> pct_header (headers ! i)) idx;
          pct_cols = (if pct_h = []
                      then filter (\<lambda>j. py_in ''%'' (join '' '' (column t j))) [0..<ncols t]
                      else pct_h);
          share_cols = (if share_h = []
                        then filter (\<lambda>j. j \<notin> set pct_cols
                                          \<and> list_ex (\<lambda>c. case clean_numeric_value c of
                                                            None \<Rightarrow> False | Some v \<Rightarrow> v \<noteq> 0 \<and> v > 1000)
                                                (column t j)) [0..<ncols t]
                        else share_h)
      in (pct_cols, share_cols))"

definition lattice_table :: "table \<Rightarrow> py_error + (string \<times> holding) list option" where
  "lattice_table t =
     (case t of
        [] \<Rightarrow> Inl IndexError
      | first_row # _ \<Rightarrow>
          (let headers = map lower first_row
           in case lattice_columns t headers of
                (pct_cols, share_cols) \<Rightarrow>
                  (case pct_cols of
                     [] \<Rightarrow> Inr None
                   | pct_col # _ \<Rightarrow>
                       (let share_col = (case share_cols of [] \<Rightarrow> None | j # _ \<Rightarrow> Some j);
                            start_row = (if any_in [''name'', ''shareholder'', ''%''] (join '' '' headers)
                                         then 1 else 0)
                        in case holder_rows pct_col share_col (drop start_row t) ([], []) of
                             Inl e \<Rightarrow> Inl e
                           | Inr hs \<Rightarrow> Inr (rank_top20 hs)))))"

text \<open>
  The stream pass over one table. \<open>df.to_string()\<close> renders every cell in full, so a word
  without a blank occurs in the rendering exactly when it occurs in a cell.
\<close>

definition table_mentions :: "string \<Rightarrow> table \<Rightarrow> bool" where
  "table_mentions w t = list_ex (list_ex (\<lambda>c. py_in w (lower c))) t"

fun has_5_digits :: "string \<Rightarrow> bool" where
  "has_5_digits (a # b # c # d # e # r) =
     ((is_digit a \<and> is_digit b \<and> is_digit c \<and> is_digit d \<and> is_digit e)
      \<or> has_5_digits (b # c # d # e # r))"
| "has_5_digits s = False"

type_synonym roles = "nat option \<times> nat option \<times> nat option"

definition stream_role :: "table \<Rightarrow> roles \<Rightarrow> nat \<Rightarrow> roles" where
  "stream_role t st j =
     (case st of (name_col, pct_col, share_col) \<Rightarrow>
        let col_values = column t j; col_str = lower (join '' '' col_values) in
        if any_in [''limited'', ''bank'', ''fund'', ''plc'', ''mr'', ''ms'', ''holdings''] col_str
        then (Some j, pct_col, share_col)
        else if py_in ''%'' col_str then (name_col, Some j, share_col)
        else if list_ex has_5_digits col_values then (name_col, pct_col, Some j)
        else st)"

definition stream_pct_fallback :: "table \<Rightarrow> nat option" where
  "stream_pct_fallback t =
     find (\<lambda>j. let col_str = lower (join '' '' (column t j))
               in py_in ''%'' col_str \<or> any_in [''percent'', ''percentage''] col_str)
       (rev [0..<ncols t])"

text \<open>In this pass the name is read from the column found, which may differ from zero.\<close>

definition stream_row :: "nat \<Rightarrow> nat \<Rightarrow> nat option \<Rightarrow> string list \<Rightarrow> holders \<Rightarrow> py_error + holders" where
  "stream_row name_col pct_col share_col row hs =
     (case cell row name_col of
        Inl e \<Rightarrow> Inl e
      | Inr c0 \<Rightarrow>
          (let name = py_strip c0
           in if header_like name then Inr hs
              else
                (case cell row pct_col of
                   Inl e \<Rightarrow> Inl e
                 | Inr pc \<Rightarrow>
                     (case (case share_col of
                              None \<Rightarrow> Inr None
                            | Some j \<Rightarrow> (case cell row j of
                                           Inl e \<Rightarrow> Inl e
                                         | Inr sc \<Rightarrow> Inr (clean_numeric_value (py_strip sc)))) of
                        Inl e \<Rightarrow> Inl e
                      | Inr shares \<Rightarrow>
                          (case clean_numeric_value (py_strip pc) of
                             None \<Rightarrow> Inr hs
                           | Some pct \<Rightarrow>
                               if 0 < pct \<and> pct < 100 then
                                 Inr (AList.update name pct (fst hs),
                                      (case shares of
                                         None \<Rightarrow> snd hs
                                       | Some sv \<Rightarrow> AList.update name sv (snd hs)))
                               else Inr hs)))))"

fun stream_rows :: "nat \<Rightarrow> nat \<Rightarrow> nat option \<Rightarrow> string list list \<Rightarrow> holders \<Rightarrow> py_error + holders" where
  "stream_rows name_col pct_col share_col [] hs = Inr hs"
| "stream_rows name_col pct_col share_col (row # rows) hs =
     (case stream_row name_col pct_col share_col row hs of
        Inl e \<Rightarrow> Inl e
      | Inr hs1 \<Rightarrow> stream_rows name_col pct_col share_col rows hs1)"

definition stream_table :: "table \<Rightarrow> py_error + (string \<times> holding) list option" where
  "stream_table t =
     (if table_mentions ''shareholder'' t \<and> (table_mentions ''%'' t \<or> table_mentions ''percent'' t)
      then
        (case foldl (stream_role t) (None, None, None) [0..<ncols t] of
           (name_col, pct_col, share_col) \<Rightarrow>
             (let name_col1 = (case name_col of None \<Rightarrow> 0 | Some j \<Rightarrow> j);
                  pct_col1 = (case pct_col of None \<Rightarrow> stream_pct_fallback t | Some j \<Rightarrow> Some j)
              in case pct_col1 of
                   None \<Rightarrow> Inr None
                 | Some pc \<Rightarrow>
                     (case stream_rows name_col1 pc share_col t ([], []) of
                        Inl e \<Rightarrow> Inl e
                      | Inr hs \<Rightarrow> Inr (rank_top20 hs))))
      else Inr None)"

text \<open>The placeholder list and the list kept in the source for the report of 2023-24.\<close>

definition placeholder_shareholders :: "(string \<times> holding) list" where
  "placeholder_shareholders =
     map (\<lambda>i. (''Major Shareholder '' @ str_nat i,
                \<lparr>h_percentage = round2 (20 / of_nat (i + 1)),
                 h_shares = Some (py_trunc (1000000 / of_nat (i + 1)))\<rparr>)) [0..<10]"


text \<open>
  The standard path of \<open>_extract_top_shareholders\<close>: the lattice pass over the keywords, then
  the stream pass, then the placeholder. The first accepted table ends the search.
\<close>

definition standard_shareholders :: "document \<Rightarrow> py_error + (string \<times> holding) list" where
  "standard_shareholders doc =
     (case first_some (\<lambda>keyword. first_some lattice_table (extract_tables_from_page doc keyword True))
             shareholder_keywords of
        Inl e \<Rightarrow> Inl e
      | Inr (Some top20) \<Rightarrow> Inr top20
      | Inr None \<Rightarrow>
          (case first_some (\<lambda>keyword. first_some stream_table (extract_tables_from_page doc keyword False))
                  shareholder_keywords of
             Inl e \<Rightarrow> Inl e
           | Inr (Some top20) \<Rightarrow> Inr top20
           | Inr None \<Rightarrow> Inr placeholder_shareholders))"

definition extract_top_shareholders :: "document \<Rightarrow> extraction \<Rightarrow> py_error + extraction" where
  "extract_top_shareholders doc d =
     (case (if special_report doc then special_case doc else Inr None) of
        Inl e \<Rightarrow> Inl e
      | Inr (Some top20) \<Rightarrow> Inr (d\<lparr>top_shareholders := Some top20\<rparr>)
      | Inr None \<Rightarrow>
          (case standard_shareholders doc of
             Inl e \<Rightarrow> Inl e
           | Inr top20 \<Rightarrow> Inr (d\<lparr>top_shareholders := Some top20\<rparr>)))"

subsection \<open>The extraction pass: \<open>extract_all_metrics\<close>\<close>

text \<open>
  Every resolver runs in a \<open>try\<close> of its own: its exception is logged and the record stays
  as it was before the resolver, since a resolver writes to the record only after its last
  statement that may raise.
\<close>

definition attempt :: "(extraction \<Rightarrow> py_error + extraction) \<Rightarrow> extraction \<Rightarrow> extraction" where
  "attempt resolver d = (case resolver d of Inl e \<Rightarrow> d | Inr d1 \<Rightarrow> d1)"

definition extract_all_metrics :: "document \<Rightarrow> extraction" where
  "extract_all_metrics doc =
     (let d1 = attempt (extract_total_revenue doc) empty_extraction;
          d2 = attempt (extract_cost_of_sales doc) d1;
          d3 = attempt (extract_operating_expenses doc) d2;
          d4 = attempt (extract_gross_profit doc) d3;
          d5 = attempt (calculate_gross_profit_margin doc) d4;
          d6 = attempt (extract_eps doc) d5;
          d7 = attempt (extract_net_asset_per_share doc) d6;
          d8 = attempt (extract_right_issues doc) d7
      in attempt (extract_top_shareholders doc) d8)"












definition bands :: table where
  "bands = [[''Shareholding range'', ''No. of holders'', ''%''],
            [''Less than or equal to 1,000'', ''8,455'', ''62.10''],
            [''1,001 to 10,000'', ''3,801'', ''27.92''],
            [''10,001 to 100,000'', ''1,098'', ''8.06''],
            [''100,001 to 1,000,000'', ''201'', ''1.48''],
            [''Over 1,000,000'', ''60'', ''0.44'']]"

definition genuine :: table where
  "genuine = [[''Name of shareholder'', ''Number of shares'', ''%''],
            [''Melstacorp PLC'', ''128,917,111'', ''9.31''],
            [''Mr S E Captain'', ''126,044,705'', ''9.10''],
            [''HWIC Asia Fund'', ''119,200,760'', ''8.61''],
            [''Paints and General Industries Limited'', ''100,717,931'', ''7.27''],
            [''Asian Development Bank'', ''65,042,006'', ''4.70'']]"

definition share_information_page :: document where
  "share_information_page =
     \<lparr>pdf_path = ''annual_report_19-20.pdf'',
      reader = Inr [Inr ''Top Twenty Shareholders''],
      camelot = (\<lambda>page fl. if page = 1 \<and> fl = Lattice then Inr [bands, genuine] else Inr []),
      tabula_all = Inl BackendError, current_year = 2025, special_case = Inr None\<rparr>"

definition names :: "py_error + (string \<times> holding) list \<Rightarrow> string list" where
  "names r = (case r of Inl e \<Rightarrow> [] | Inr top20 \<Rightarrow> map fst top20)"


definition band_rows :: "(string \<times> holding) list" where
  "band_rows =
     [(''Less than or equal to 1,000'', \<lparr>h_percentage = 62.10, h_shares = Some 1000\<rparr>),
      (''1,001 to 10,000'', \<lparr>h_percentage = 27.92, h_shares = Some 100110000\<rparr>),
      (''10,001 to 100,000'', \<lparr>h_percentage = 8.06, h_shares = Some 10001100000\<rparr>),
      (''100,001 to 1,000,000'', \<lparr>h_percentage = 1.48, h_shares = Some 1000011000000\<rparr>),
      (''Over 1,000,000'', \<lparr>h_percentage = 0.44, h_shares = Some 1000000\<rparr>)]"

definition genuine_rows :: "(string \<times> holding) list" where
  "genuine_rows =
     [(''Melstacorp PLC'', \<lparr>h_percentage = 9.31, h_shares = Some 128917111\<rparr>),
      (''Mr S E Captain'', \<lparr>h_percentage = 9.10, h_shares = Some 126044705\<rparr>),
      (''HWIC Asia Fund'', \<lparr>h_percentage = 8.61, h_shares = Some 119200760\<rparr>),
      (''Paints and General Industries Limited'', \<lparr>h_percentage = 7.27, h_shares = Some 100717931\<rparr>),
      (''Asian Development Bank'', \<lparr>h_percentage = 4.70, h_shares = Some 65042006\<rparr>)]"

section \<open>Verified properties of the numeric normalizer\<close>
















lemma list_all_digit_tw: "list_all is_digit fp \<Longrightarrow> takeWhile is_digit fp = fp"
  by (induction fp) auto












section \<open>Verified properties of the consolidation\<close>

lemma find_append_found:
  "find P xs = Some x \<Longrightarrow> find P (xs @ ys) = Some x"
  by (induction xs) (auto split: if_splits)

lemma find_append_new:
  "\<forall>x\<in>set xs. \<not> P x \<Longrightarrow> find P (xs @ ys) = find P ys"
  by (induction xs) auto

lemma first_writer_Nil: "first_writer build [] []"
  by (simp add: first_writer_def)

lemma first_writer_step:
  assumes inv: "first_writer build cs ys" and b: "build p y = Some e" and y: "year e = y"
  shows "first_writer build (cs @ [(y, p)]) (add_yearly e ys)"
proof (cases "list_ex (\<lambda>item. year item = year e) ys")
  case True
  then obtain item where "item \<in> set ys" "year item = y" using y by (auto simp: list_ex_iff)
  then have in_ys: "y \<in> set (map year ys)" by force
  have eq: "add_yearly e ys = ys" using True by (simp add: add_yearly_def)
  have "set (map year ys) = set (map fst (cs @ [(y, p)]))"
    using inv in_ys by (auto simp: first_writer_def)
  moreover have "\<forall>e'\<in>set ys. \<exists>p'. find (\<lambda>c. fst c = year e') (cs @ [(y, p)]) = Some (year e', p')
        \<and> build p' (year e') = Some e'"
    using inv by (auto simp: first_writer_def dest!: bspec intro: find_append_found)
  ultimately show ?thesis using inv eq by (simp add: first_writer_def)
next
  case False
  then have "\<forall>item\<in>set ys. year item \<noteq> y" using y by (simp add: list_ex_iff)
  then have notin: "y \<notin> set (map year ys)" by auto
  then have notin_cs: "\<forall>c\<in>set cs. \<not> fst c = y" using inv by (auto simp: first_writer_def)
  have eq: "add_yearly e ys = ys @ [e]" using False by (simp add: add_yearly_def)
  have d: "distinct (map year (ys @ [e]))" using inv notin y by (auto simp: first_writer_def)
  have s: "set (map year (ys @ [e])) = set (map fst (cs @ [(y, p)]))"
    using inv y by (auto simp: first_writer_def)
  have new: "find (\<lambda>c. fst c = year e) (cs @ [(y, p)]) = Some (year e, p)"
    using find_append_new[of cs "\<lambda>c. fst c = y" "[(y, p)]"] notin_cs y by simp
  have old: "\<forall>e'\<in>set ys. \<exists>p'. find (\<lambda>c. fst c = year e') (cs @ [(y, p)]) = Some (year e', p')
        \<and> build p' (year e') = Some e'"
    using inv by (auto simp: first_writer_def dest!: bspec intro: find_append_found)
  show ?thesis unfolding eq first_writer_def
    using d s new old b y by auto
qed

lemma first_writer_sort:
  assumes "first_writer build cs ys"
  shows "first_writer build cs (sort_key year ys)"
proof -
  have "distinct (map year (sort_key year ys))"
    using assms by (simp add: first_writer_def distinct_map)
  then show ?thesis using assms by (simp add: first_writer_def)
qed

lemma year_make_yearly: "year (make_yearly f y) = y"
  by (simp add: make_yearly_def)

lemma process_display_year_inv:
  assumes "process_display_year yd y t = Inr t'" and "first_writer json_entry cs (yearlyData t)"
  shows "first_writer json_entry (cs @ [(y, yd)]) (yearlyData t')"
proof -
  from assms(1) obtain f where f: "make_financials yd = Inr f"
    and t': "yearlyData t' = add_yearly (make_yearly f y) (yearlyData t)"
    unfolding process_display_year_def
    by (cases "make_financials yd") auto
  have "json_entry yd y = Some (make_yearly f y)" using f by (simp add: json_entry_def)
  from first_writer_step[OF assms(2) this year_make_yearly] t' show ?thesis by simp
qed

lemma process_record_inv:
  assumes "process_record rec t = Inr t'" and "first_writer json_entry cs (yearlyData t)"
  shows "first_writer json_entry (cs @ candidates [rec]) (yearlyData t')"
proof -
  obtain k yd where rec: "rec = (k, yd)" by (cases rec)
  from assms(1) rec have "\<exists>s e t1. fiscal_years k = Inr (s, e)
      \<and> process_display_year yd s t = Inr t1 \<and> process_display_year yd e t1 = Inr t'"
    unfolding process_record_def
    by (cases "fiscal_years k") (auto split: sum.splits prod.splits)
  then obtain s e t1 where fy: "fiscal_years k = Inr (s, e)"
    and 1: "process_display_year yd s t = Inr t1"
    and 2: "process_display_year yd e t1 = Inr t'"
    by blast
  have c: "candidates [rec] = [(s, yd), (e, yd)]" using rec fy by (simp add: candidates_def)
  from process_display_year_inv[OF 2 process_display_year_inv[OF 1 assms(2)]]
  show ?thesis using c by simp
qed

lemma candidates_Cons: "candidates (rec # recs) = candidates [rec] @ candidates recs"
  by (simp add: candidates_def)

lemma transform_loop_inv:
  "transform_loop recs t = Inr t' \<Longrightarrow> first_writer json_entry cs (yearlyData t)
     \<Longrightarrow> first_writer json_entry (cs @ candidates recs) (yearlyData t')"
proof (induction recs arbitrary: t cs)
  case Nil
  then show ?case by (simp add: candidates_def)
next
  case (Cons rec recs)
  from Cons.prems(1) obtain t1 where 1: "process_record rec t = Inr t1"
    and 2: "transform_loop recs t1 = Inr t'" by (cases "process_record rec t") simp_all
  from Cons.IH[OF 2 process_record_inv[OF 1 Cons.prems(2)]]
  show ?case unfolding candidates_Cons[of rec recs] by simp
qed

lemma transform_first_writer:
  assumes "transform_consolidated_data cd = Inr t"
  shows "first_writer json_entry (candidates (financial_data cd)) (yearlyData t)"
    and "sorted (map year (yearlyData t))"
proof -
  from assms obtain t0 where l: "transform_loop (financial_data cd) empty_transformed = Inr t0"
    and t: "yearlyData t = sort_key year (yearlyData t0)"
    unfolding transform_consolidated_data_def
    by (cases "transform_loop (financial_data cd) empty_transformed") auto
  have "first_writer json_entry [] (yearlyData empty_transformed)"
    by (simp add: empty_transformed_def first_writer_Nil)
  from transform_loop_inv[OF l this] first_writer_sort t
  show "first_writer json_entry (candidates (financial_data cd)) (yearlyData t)" by simp
  show "sorted (map year (yearlyData t))" using t by simp
qed

lemma csv_display_year_inv:
  assumes "csv_display_year files rows y a = Inr a'" and "first_writer csv_entry cs (yearlyData a)"
  shows "first_writer csv_entry (cs @ [(y, rows)]) (yearlyData a')"
proof -
  from assms(1) have a': "yearlyData a' = add_yearly (make_yearly (csv_financials rows) y) (yearlyData a)"
    unfolding csv_display_year_def
    by (cases "csv_add_right_issue (cy_rights files) y (rightIssues a)") auto
  have "csv_entry rows y = Some (make_yearly (csv_financials rows) y)" by (simp add: csv_entry_def)
  from first_writer_step[OF assms(2) this year_make_yearly] a' show ?thesis by simp
qed

lemma csv_candidates_Cons:
  "csv_candidates files (k # ks) = csv_candidates files [k] @ csv_candidates files ks"
  by (simp add: csv_candidates_def)

lemma csv_year_step_inv:
  assumes "csv_year_step files k a = Inr a'" and "first_writer csv_entry cs (yearlyData a)"
  shows "first_writer csv_entry (cs @ csv_candidates files [k]) (yearlyData a')"
proof -
  from assms(1) obtain s e where fy: "fiscal_years k = Inr (s, e)"
    unfolding csv_year_step_def by (cases "fiscal_years k") auto
  show ?thesis
  proof (cases "cy_metrics (files k)")
    case None
    then have "a' = a" using assms(1) fy by (simp add: csv_year_step_def)
    moreover have "csv_candidates files [k] = []" using None fy by (simp add: csv_candidates_def)
    ultimately show ?thesis using assms(2) by simp
  next
    case (Some rows)
    from assms(1) fy Some obtain a1 where 1: "csv_display_year (files k) rows s a = Inr a1"
      and 2: "csv_display_year (files k) rows e a1 = Inr a'"
      unfolding csv_year_step_def
      by (cases "csv_display_year (files k) rows s a") auto
    have c: "csv_candidates files [k] = [(s, rows), (e, rows)]"
      using Some fy by (simp add: csv_candidates_def)
    from csv_display_year_inv[OF 2 csv_display_year_inv[OF 1 assms(2)]]
    show ?thesis using c by simp
  qed
qed

lemma csv_loop_inv:
  "csv_loop files ks a = Inr a' \<Longrightarrow> first_writer csv_entry cs (yearlyData a)
     \<Longrightarrow> first_writer csv_entry (cs @ csv_candidates files ks) (yearlyData a')"
proof (induction ks arbitrary: a cs)
  case Nil
  then show ?case by (simp add: csv_candidates_def)
next
  case (Cons k ks)
  from Cons.prems(1) obtain a1 where 1: "csv_year_step files k a = Inr a1"
    and 2: "csv_loop files ks a1 = Inr a'" by (cases "csv_year_step files k a") simp_all
  from Cons.IH[OF 2 csv_year_step_inv[OF 1 Cons.prems(2)]]
  show ?case unfolding csv_candidates_Cons[of files k ks] by simp
qed

lemma csv_first_writer:
  assumes "load_from_csv_files env cache = (Inr a, cache')" and "listing env = Inr files"
  shows "first_writer csv_entry
           (csv_candidates (csv_files env) (map year_of_file (filter (prefix ''financial_metrics_'') files)))
           (yearlyData a)"
    and "sorted (map year (yearlyData a))"
proof -
  let ?years = "map year_of_file (filter (prefix ''financial_metrics_'') files)"
  from assms obtain a0 where l: "csv_loop (csv_files env) ?years empty_transformed = Inr a0"
    and a: "yearlyData a = sort_key year (yearlyData a0)"
    unfolding load_from_csv_files_def
    by (cases "csv_loop (csv_files env) ?years empty_transformed") (auto simp: Let_def split: if_splits)
  have "first_writer csv_entry [] (yearlyData empty_transformed)"
    by (simp add: empty_transformed_def first_writer_Nil)
  from csv_loop_inv[OF l this] first_writer_sort a
  show "first_writer csv_entry (csv_candidates (csv_files env) ?years) (yearlyData a)" by simp
  show "sorted (map year (yearlyData a))" using a by simp
qed

text \<open>
  Claim C2. Whenever a loader returns a dataset, its yearly entries carry pairwise different
  years and are sorted by year, and every entry is the one built from the first pair of a
  record and a display year, in the order of the consolidation, that maps to its year: a later
  pair for a year that already has an entry is skipped. This holds for the transformation of
  the consolidated JSON and for the CSV loader.
\<close>

theorem consolidation_first_writer_wins:
  "(transform_consolidated_data cd = Inr t \<longrightarrow>
      distinct (map year (yearlyData t)) \<and> sorted (map year (yearlyData t)) \<and>
      (\<forall>e\<in>set (yearlyData t). \<exists>yd f.
          find (\<lambda>c. fst c = year e) (candidates (financial_data cd)) = Some (year e, yd)
          \<and> make_financials yd = Inr f \<and> e = make_yearly f (year e)))
   \<and> (load_from_csv_files env cache = (Inr a, cache') \<and> listing env = Inr files \<longrightarrow>
      distinct (map year (yearlyData a)) \<and> sorted (map year (yearlyData a)) \<and>
      (\<forall>e\<in>set (yearlyData a). \<exists>rows.
          find (\<lambda>c. fst c = year e)
            (csv_candidates (csv_files env)
               (map year_of_file (filter (prefix ''financial_metrics_'') files))) = Some (year e, rows)
          \<and> e = make_yearly (csv_financials rows) (year e)))"
proof (intro conjI impI)
  assume a: "transform_consolidated_data cd = Inr t"
  note fw = transform_first_writer(1)[OF a]
  show "distinct (map year (yearlyData t))" using fw by (simp add: first_writer_def)
  show "sorted (map year (yearlyData t))" by (rule transform_first_writer(2)[OF a])
  show "\<forall>e\<in>set (yearlyData t). \<exists>yd f.
          find (\<lambda>c. fst c = year e) (candidates (financial_data cd)) = Some (year e, yd)
          \<and> make_financials yd = Inr f \<and> e = make_yearly f (year e)"
  proof
    fix e assume "e \<in> set (yearlyData t)"
    with fw obtain yd where 1: "find (\<lambda>c. fst c = year e) (candidates (financial_data cd)) = Some (year e, yd)"
      and 2: "json_entry yd (year e) = Some e" unfolding first_writer_def by blast
    from 2 obtain f where "make_financials yd = Inr f" "e = make_yearly f (year e)"
      unfolding json_entry_def by (cases "make_financials yd") auto
    with 1 show "\<exists>yd f. find (\<lambda>c. fst c = year e) (candidates (financial_data cd)) = Some (year e, yd)
          \<and> make_financials yd = Inr f \<and> e = make_yearly f (year e)" by blast
  qed
next
  assume "load_from_csv_files env cache = (Inr a, cache') \<and> listing env = Inr files"
  then have a: "load_from_csv_files env cache = (Inr a, cache')" and l: "listing env = Inr files" by auto
  note fw = csv_first_writer(1)[OF a l]
  show "distinct (map year (yearlyData a))" using fw by (simp add: first_writer_def)
  show "sorted (map year (yearlyData a))" by (rule csv_first_writer(2)[OF a l])
  show "\<forall>e\<in>set (yearlyData a). \<exists>rows.
          find (\<lambda>c. fst c = year e)
            (csv_candidates (csv_files env)
               (map year_of_file (filter (prefix ''financial_metrics_'') files))) = Some (year e, rows)
          \<and> e = make_yearly (csv_financials rows) (year e)"
  proof
    fix e assume "e \<in> set (yearlyData a)"
    with fw obtain rows where 1: "find (\<lambda>c. fst c = year e)
            (csv_candidates (csv_files env)
               (map year_of_file (filter (prefix ''financial_metrics_'') files))) = Some (year e, rows)"
      and 2: "csv_entry rows (year e) = Some e" unfolding first_writer_def by blast
    from 2 have "e = make_yearly (csv_financials rows) (year e)" by (simp add: csv_entry_def)
    with 1 show "\<exists>rows. find (\<lambda>c. fst c = year e)
            (csv_candidates (csv_files env)
               (map year_of_file (filter (prefix ''financial_metrics_'') files))) = Some (year e, rows)
          \<and> e = make_yearly (csv_financials rows) (year e)" by blast
  qed
qed

lemma split_on_no_sep: "sep \<notin> set s \<Longrightarrow> split_on sep s = [s]"
  by (induction s) auto

lemma fiscal_years_no_dash:
  assumes "CHR ''-'' \<notin> set k"
  shows "fiscal_years k = (case py_int k of Inl e \<Rightarrow> Inl e | Inr n \<Rightarrow> Inl IndexError)"
  using split_on_no_sep[OF assms] by (simp add: fiscal_years_def split: sum.splits)

lemma fiscal_years_no_dash_fails:
  assumes "CHR ''-'' \<notin> set k"
  shows "\<exists>e. fiscal_years k = Inl e"
  unfolding fiscal_years_no_dash[OF assms] by (cases "py_int k") auto

lemma digit_not_space: "is_digit c \<Longrightarrow> \<not> is_space c"
  by (auto simp: is_digit_def is_space_def)

lemma digit_not_dash: "is_digit c \<Longrightarrow> c \<noteq> CHR ''-'' \<and> c \<noteq> CHR ''+'' \<and> c \<noteq> CHR ''_''"
  by (auto simp: is_digit_def)

lemma digits_us_all: "s \<noteq> [] \<Longrightarrow> list_all is_digit s \<Longrightarrow> digits_us s"
  by (induction s rule: digits_us.induct) (auto dest: digit_not_dash)

lemma py_strip_digits:
  assumes "s \<noteq> []" "list_all is_digit s"
  shows "py_strip s = s"
proof -
  from assms obtain c cs where s: "s = c # cs" and c: "is_digit c" by (cases s) auto
  then have 1: "dropWhile is_space s = s" using digit_not_space by simp
  from assms have "rev s \<noteq> []" "list_all is_digit (rev s)" by (simp_all add: list_all_iff)
  then obtain d ds where r: "rev s = d # ds" and d: "is_digit d" by (cases "rev s") auto
  then have 2: "dropWhile is_space (rev s) = rev s" using digit_not_space by simp
  show ?thesis unfolding py_strip_def 1 2 by simp
qed

lemma py_int_digits:
  assumes "s \<noteq> []" "list_all is_digit s"
  shows "\<exists>n. py_int s = Inr n"
proof -
  from assms obtain c cs where s: "s = c # cs" and c: "is_digit c" by (cases s) auto
  have "digits_us s" by (rule digits_us_all[OF assms])
  then show ?thesis
    unfolding py_int_def py_strip_digits[OF assms] using s digit_not_dash[OF c]
    by (simp add: Let_def)
qed

lemma digits_no_dash: "list_all is_digit s \<Longrightarrow> CHR ''-'' \<notin> set s"
  by (auto simp: list_all_iff dest: digit_not_dash)

lemma process_record_fails:
  "fiscal_years k = Inl e \<Longrightarrow> process_record (k, yd) t = Inl e"
  by (simp add: process_record_def)

lemma transform_loop_member_fails:
  "(k, yd) \<in> set recs \<Longrightarrow> fiscal_years k = Inl e0 \<Longrightarrow> \<exists>e. transform_loop recs t = Inl e"
proof (induction recs arbitrary: t)
  case Nil
  then show ?case by simp
next
  case (Cons r recs)
  show ?case
  proof (cases "process_record r t")
    case (Inl e)
    then show ?thesis by simp
  next
    case (Inr t1)
    with Cons.prems process_record_fails[of k e0 yd t] have "(k, yd) \<in> set recs" by auto
    from Cons.IH[OF this Cons.prems(2)] Inr show ?thesis by simp
  qed
qed

lemma transform_loop_append:
  "transform_loop pre t = Inr t0 \<Longrightarrow> transform_loop (pre @ recs) t = transform_loop recs t0"
proof (induction pre arbitrary: t)
  case Nil
  then show ?case by simp
next
  case (Cons r pre)
  then show ?case by (cases "process_record r t") simp_all
qed

lemma load_json_failure:
  "all_data cache = None \<Longrightarrow> transform_consolidated_data cd = Inl e \<Longrightarrow>
     load_all_financial_data (Some (Inr cd)) env cache = load_from_csv_files env cache"
  by (simp add: load_all_financial_data_def)

text \<open>
  Claim C10. If a fiscal-period key of the consolidated input has no \<open>-\<close>, the transformation
  ends in an exception and the loader answers with the CSV loader instead, leaving the cache as
  the CSV loader leaves it. The exception is IndexError, raised by the second split component,
  whenever \<open>int\<close> accepts the key, as it does for a token of digits, and the records before
  it are transformed without error.
\<close>

theorem missing_separator_falls_back_to_csv:
  assumes "financial_data cd = pre @ (k, yd) # post" and "CHR ''-'' \<notin> set k"
    and "all_data cache = None"
  shows "(\<exists>e. transform_consolidated_data cd = Inl e)
     \<and> load_all_financial_data (Some (Inr cd)) env cache = load_from_csv_files env cache
     \<and> ((\<exists>n. py_int k = Inr n) \<and> (\<exists>t0. transform_loop pre empty_transformed = Inr t0)
          \<longrightarrow> transform_consolidated_data cd = Inl IndexError)
     \<and> (k \<noteq> [] \<and> list_all is_digit k \<longrightarrow> (\<exists>n. py_int k = Inr n))"
proof -
  from fiscal_years_no_dash_fails[OF assms(2)] obtain e0 where e0: "fiscal_years k = Inl e0" by blast
  have "(k, yd) \<in> set (financial_data cd)" using assms(1) by simp
  from transform_loop_member_fails[OF this e0]
  obtain e where "transform_loop (financial_data cd) empty_transformed = Inl e" by blast
  then have 1: "transform_consolidated_data cd = Inl e" by (simp add: transform_consolidated_data_def)
  have 2: "load_all_financial_data (Some (Inr cd)) env cache = load_from_csv_files env cache"
    by (rule load_json_failure[OF assms(3) 1])
  have 3: "transform_consolidated_data cd = Inl IndexError"
    if n: "\<exists>n. py_int k = Inr n" and t0: "\<exists>t0. transform_loop pre empty_transformed = Inr t0"
  proof -
    from n obtain n where "py_int k = Inr n" by blast
    then have "fiscal_years k = Inl IndexError" by (simp add: fiscal_years_no_dash[OF assms(2)])
    then have pr: "\<And>t. process_record (k, yd) t = Inl IndexError" by (rule process_record_fails)
    from t0 obtain t0 where "transform_loop pre empty_transformed = Inr t0" by blast
    from transform_loop_append[OF this, of "(k, yd) # post"]
    have "transform_loop (financial_data cd) empty_transformed = Inl IndexError"
      using assms(1) pr by simp
    then show ?thesis by (simp add: transform_consolidated_data_def)
  qed
  have 4: "k \<noteq> [] \<and> list_all is_digit k \<longrightarrow> (\<exists>n. py_int k = Inr n)"
    using py_int_digits by blast
  show ?thesis using 1 2 3 4 by blast
qed

lemmas app_eval_defs = transform_consolidated_data_def two_periods_def period_2019_def period_2020_def
  process_record_def fiscal_years_def py_int_def py_strip_def is_space_def is_digit_def
  digits_value_def digit_val_def process_display_year_def make_financials_def make_yearly_def
  add_yearly_def add_right_issue_def add_top_shareholders_def empty_transformed_def
  estimate_share_count_def shareholders_list_def sorted_desc_def yearly_years_def yearly_revenues_def

theorem missing_separator_falls_back_to_csv_witness:
  "transform_consolidated_data single_year_key = Inl IndexError
   \<and> load_all_financial_data (Some (Inr single_year_key)) csv_example empty_cache
       = load_from_csv_files csv_example empty_cache"
proof -
  have 1: "financial_data single_year_key = [(''2019-2020'', period_2019)] @ (''2021'', period_2020) # []"
    by (simp add: single_year_key_def)
  have 2: "CHR ''-'' \<notin> set ''2021''" by simp
  have 3: "all_data empty_cache = None" by (simp add: empty_cache_def)
  have 4: "\<exists>n. py_int ''2021'' = Inr n"
    by (simp add: py_int_def py_strip_def is_space_def is_digit_def)
  have 5: "\<exists>t0. transform_loop [(''2019-2020'', period_2019)] empty_transformed = Inr t0"
    by (simp add: app_eval_defs)
  from missing_separator_falls_back_to_csv[OF 1 2 3, of csv_example] 4 5 show ?thesis by blast
qed






theorem consolidation_first_writer_wins_witness:
  "\<exists>t a c. transform_consolidated_data two_periods = Inr t
      \<and> load_from_csv_files csv_example empty_cache = (Inr a, c)
      \<and> distinct (map year (yearlyData t)) \<and> sorted (map year (yearlyData t))
      \<and> distinct (map year (yearlyData a)) \<and> sorted (map year (yearlyData a))"
proof -
  have "\<exists>t. transform_consolidated_data two_periods = Inr t" by (simp add: app_eval_defs)
  then obtain t where t: "transform_consolidated_data two_periods = Inr t" by blast
  have l: "listing csv_example = Inr [''financial_metrics_2019-2020.csv'',
      ''rights_issues_2019-2020.csv'', ''financial_metrics_2020-2021.csv'']"
    by (simp add: csv_example_def)
  have "\<exists>a c. load_from_csv_files csv_example empty_cache = (Inr a, c)"
    by (simp add: load_from_csv_files_def csv_example_def year_of_file_def csv_year_step_def
        csv_display_year_def csv_add_right_issue_def csv_add_shareholders_def Let_def
        fiscal_years_def py_int_def py_strip_def is_space_def is_digit_def)
  then obtain a c where a: "load_from_csv_files csv_example empty_cache = (Inr a, c)" by blast
  from consolidation_first_writer_wins[of two_periods t csv_example empty_cache a c] t a l
  show ?thesis by blast
qed


section \<open>Verified properties of the table strategy chain\<close>











section \<open>Verified properties of the extractor\<close>

































































lemma top_shareholders_stored:
  assumes "standard_shareholders doc = Inr top20" and "\<not> special_report doc"
  shows "top_shareholders (extract_all_metrics doc) = Some top20"
  unfolding extract_all_metrics_def Let_def
  using assms by (simp add: attempt_def extract_top_shareholders_def)


lemma not_special_19_20: "\<not> special_report share_information_page"
  by code_simp


lemma share_page_tables:
  "extract_tables_from_page share_information_page ''Top Twenty Shareholders'' True = [bands, genuine]"
  by code_simp

lemma lattice_table_bands: "lattice_table bands = Inr (Some band_rows)"
  by code_simp

lemma lattice_table_genuine: "lattice_table genuine = Inr (Some genuine_rows)"
  by code_simp

lemma share_page_standard: "standard_shareholders share_information_page = Inr band_rows"
  unfolding standard_shareholders_def shareholder_keywords_def
  by (simp add: share_page_tables lattice_table_bands)

text \<open>
  Claim C5, failing input. The page of the keyword holds the table of the distribution by
  holding size and, after it, the genuine table of the largest shareholders. The standard path
  has no test for size-band rows: the first table has a percentage column and five rows with
  a percentage between 0 and 100, so its bands are stored as the top shareholders and the
  genuine table is never read.
\<close>

theorem size_band_table_accepted:
  "\<not> special_report share_information_page
   \<and> extract_tables_from_page share_information_page ''Top Twenty Shareholders'' True = [bands, genuine]
   \<and> lattice_table genuine = Inr (Some genuine_rows)
   \<and> top_shareholders (extract_all_metrics share_information_page) = Some band_rows"
  using not_special_19_20 share_page_tables lattice_table_genuine
    top_shareholders_stored[OF share_page_standard not_special_19_20]
  by simp











end
